(* ===== verification/Prelude.thy ===== *)
theory Prelude
  imports Complex_Main "HOL-Library.Char_ord" "HOL-Library.List_Lexorder" "HOL-Library.Sublist"
begin

text \<open>
  The Python builtins that \<open>src/bikeshare_2.py\<close> relies on, modelled once and shared by
  every component: the exceptions the script can raise (as values of \<open>py_error\<close>),
  computations that may raise (\<open>'a result\<close>), computations that print and then may
  raise (\<open>('o, 'a) wres\<close>: the lines printed so far and the outcome), \<open>str.lower\<close>
  and \<open>str.title\<close> on ASCII text, \<open>list.index\<close>, dictionary lookup, the builtin
  \<open>round\<close> (round half to even) and \<open>divmod\<close> (floor division). Python floats are
  modelled by exact rationals (\<open>rat\<close>), Python integers by \<open>int\<close>.
\<close>

named_theorems model_simps "evaluation rules of the modelled Python builtins"

section \<open>Exceptions and effects\<close>

datatype py_error = KeyError | ValueError | EOFError | FileNotFoundError | ParserError

type_synonym 'a result = "py_error + 'a"

text \<open>Output printed before the outcome: a print followed by a raise keeps the print.\<close>

type_synonym ('o, 'a) wres = "'o list \<times> 'a result"

definition res_bind :: "'a result \<Rightarrow> ('a \<Rightarrow> 'b result) \<Rightarrow> 'b result" where
  "res_bind r f = (case r of Inl e \<Rightarrow> Inl e | Inr a \<Rightarrow> f a)"

definition wret :: "'a \<Rightarrow> ('o, 'a) wres" where
  "wret a = ([], Inr a)"

definition wraise :: "py_error \<Rightarrow> ('o, 'a) wres" where
  "wraise e = ([], Inl e)"

definition lift :: "'a result \<Rightarrow> ('o, 'a) wres" where
  "lift r = ([], r)"

definition emit :: "'o \<Rightarrow> ('o, unit) wres" where
  "emit x = ([x], Inr ())"

definition wbind :: "('o, 'a) wres \<Rightarrow> ('a \<Rightarrow> ('o, 'b) wres) \<Rightarrow> ('o, 'b) wres" where
  "wbind m f = (case m of
     (os, Inl e) \<Rightarrow> (os, Inl e)
   | (os, Inr a) \<Rightarrow> (case f a of (os', r) \<Rightarrow> (os @ os', r)))"

text \<open>The lines of a sub-computation, printed as lines of the caller's type.\<close>

definition map_out :: "('o \<Rightarrow> 'p) \<Rightarrow> ('o, 'a) wres \<Rightarrow> ('p, 'a) wres" where
  "map_out f m = (map f (fst m), snd m)"

section \<open>Strings: \<open>str.lower\<close> and \<open>str.title\<close> on ASCII\<close>

definition is_upper :: "char \<Rightarrow> bool" where
  "is_upper c \<longleftrightarrow> CHR ''A'' \<le> c \<and> c \<le> CHR ''Z''"

definition is_lower :: "char \<Rightarrow> bool" where
  "is_lower c \<longleftrightarrow> CHR ''a'' \<le> c \<and> c \<le> CHR ''z''"

definition lower_char :: "char \<Rightarrow> char" where
  "lower_char c = (if is_upper c then char_of (of_char c + (32::nat)) else c)"

definition upper_char :: "char \<Rightarrow> char" where
  "upper_char c = (if is_lower c then char_of (of_char c - (32::nat)) else c)"

definition py_lower :: "string \<Rightarrow> string" where
  "py_lower s = map lower_char s"

text \<open>
  \<open>str.title\<close>: a cased character is upper-cased when the character before it is not
  cased and lower-cased otherwise (\<open>prev\<close> is CPython's \<open>previous_is_cased\<close>).
\<close>

fun title_from :: "bool \<Rightarrow> string \<Rightarrow> string" where
  "title_from prev [] = []"
| "title_from prev (c # cs) =
     (if is_upper c \<or> is_lower c
      then (if prev then lower_char c else upper_char c) # title_from True cs
      else c # title_from False cs)"

definition py_title :: "string \<Rightarrow> string" where
  "py_title s = title_from False s"

section \<open>Lists and dictionaries\<close>

text \<open>\<open>list.index\<close>: the first position of the value, \<open>ValueError\<close> when absent.\<close>

fun py_index :: "'a list \<Rightarrow> 'a \<Rightarrow> nat result" where
  "py_index [] x = Inl ValueError"
| "py_index (y # ys) x = (if y = x then Inr 0 else res_bind (py_index ys x) (\<lambda>i. Inr (Suc i)))"

text \<open>A dictionary literal is an association list; \<open>d[k]\<close> raises \<open>KeyError\<close>.\<close>

definition dict_get :: "('k \<times> 'v) list \<Rightarrow> 'k \<Rightarrow> 'v result" where
  "dict_get d k = (case map_of d k of None \<Rightarrow> Inl KeyError | Some v \<Rightarrow> Inr v)"

definition dict_has :: "('k \<times> 'v) list \<Rightarrow> 'k \<Rightarrow> bool" where
  "dict_has d k \<longleftrightarrow> k \<in> set (map fst d)"

section \<open>Numbers: \<open>round\<close> and \<open>divmod\<close>\<close>

text \<open>Python's \<open>round(x)\<close> on a float: the nearest integer, halves to the even one.\<close>

definition py_round :: "rat \<Rightarrow> int" where
  "py_round x =
     (let f = \<lfloor>x\<rfloor>; d = x - of_int f
      in if d < 1/2 then f else if 1/2 < d then f + 1 else if even f then f else f + 1)"

text \<open>\<open>divmod(x, y)\<close> for \<open>y > 0\<close>: the floor quotient and the remainder.\<close>

definition py_divmod :: "rat \<Rightarrow> rat \<Rightarrow> int \<times> rat" where
  "py_divmod x y = (let q = \<lfloor>x / y\<rfloor> in (q, x - of_int q * y))"

section \<open>Generic lemmas\<close>

lemma res_bind_simps [simp, model_simps]:
  "res_bind (Inl e) f = Inl e"
  "res_bind (Inr a) f = f a"
  by (simp_all add: res_bind_def)

lemma res_bind_Inr_iff:
  "res_bind r f = Inr b \<longleftrightarrow> (\<exists>a. r = Inr a \<and> f a = Inr b)"
  by (cases r) simp_all

lemma wbind_simps [simp, model_simps]:
  "wbind (os, Inl e) f = (os, Inl e)"
  "wbind (os, Inr a) f = (os @ fst (f a), snd (f a))"
  by (simp_all add: wbind_def split: prod.split)

lemma wbind_unit_simps [simp, model_simps]:
  "wbind (wret a) f = f a"
  "wbind (wraise e) f = wraise e"
  "wbind (lift (Inl e)) f = wraise e"
  "wbind (lift (Inr a)) f = f a"
  "wbind (emit x) f = (x # fst (f ()), snd (f ()))"
  by (simp_all add: wret_def wraise_def lift_def emit_def)

lemma wbind_assoc:
  "wbind (wbind m f) g = wbind m (\<lambda>a. wbind (f a) g)"
  by (cases m) (auto simp: wbind_def split: sum.split prod.split)

lemma length_py_lower [simp]: "length (py_lower s) = length s"
  by (simp add: py_lower_def)

lemma py_index_Inr_iff:
  "py_index xs x = Inr i \<longleftrightarrow> i < length xs \<and> xs ! i = x \<and> x \<notin> set (take i xs)"
proof (induction xs arbitrary: i)
  case Nil
  then show ?case by simp
next
  case (Cons y ys)
  show ?case
  proof (cases "y = x")
    case True
    then show ?thesis by (cases i) auto
  next
    case False
    then show ?thesis
      using Cons.IH by (cases i) (auto simp: res_bind_Inr_iff)
  qed
qed

lemma py_index_Inl_iff:
  "py_index xs x = Inl e \<longleftrightarrow> e = ValueError \<and> x \<notin> set xs"
  by (induction xs) (auto simp: res_bind_def split: sum.split)

lemma dict_get_Inr_iff [model_simps]:
  "dict_get d k = Inr v \<longleftrightarrow> map_of d k = Some v"
  by (simp add: dict_get_def split: option.split)

lemma dict_get_Inl_iff:
  "dict_get d k = Inl e \<longleftrightarrow> e = KeyError \<and> \<not> dict_has d k"
  by (force simp: dict_get_def dict_has_def map_of_eq_None_iff dest: map_of_SomeD
      split: option.split)

lemma py_round_of_int [simp]: "py_round (of_int n) = n"
  by (simp add: py_round_def)

lemma py_round_near: "\<bar>of_int (py_round x) - x\<bar> \<le> 1/2"
proof -
  define f where "f = \<lfloor>x\<rfloor>"
  have lo: "of_int f \<le> x" and hi: "x < of_int f + 1"
    unfolding f_def by linarith+
  have r: "py_round x = f \<or> py_round x = f + 1"
    by (simp add: py_round_def Let_def f_def)
  have "py_round x = f \<Longrightarrow> x - of_int f \<le> 1/2"
    by (auto simp: py_round_def Let_def f_def[symmetric] split: if_splits)
  moreover have "py_round x = f + 1 \<Longrightarrow> 1/2 \<le> x - of_int f"
    by (auto simp: py_round_def Let_def f_def[symmetric] split: if_splits)
  ultimately show ?thesis
    using r lo hi by (auto simp: abs_le_iff)
qed

lemma py_divmod_eq:
  assumes "py_divmod x y = (q, r)" and "0 < y"
  shows "x = of_int q * y + r \<and> 0 \<le> r \<and> r < y"
proof -
  have q: "q = \<lfloor>x / y\<rfloor>" and r: "r = x - of_int q * y"
    using assms(1) by (auto simp: py_divmod_def Let_def)
  have "of_int q \<le> x / y" and "x / y < of_int q + 1"
    unfolding q by linarith+
  with \<open>0 < y\<close> have "of_int q * y \<le> x" and "x < (of_int q + 1) * y"
    by (simp_all add: pos_le_divide_eq pos_divide_less_eq)
  then show ?thesis
    using r by (simp add: algebra_simps)
qed

lemma py_divmod_of_int:
  "py_divmod (of_int a) (of_int b) = (a div b, of_int (a mod b))"
proof -
  have "\<lfloor>(of_int a :: rat) / of_int b\<rfloor> = a div b"
    by (rule floor_divide_of_int_eq)
  moreover have "(of_int a :: rat) - of_int (a div b) * of_int b = of_int (a mod b)"
    by (metis add_diff_cancel_left' minus_div_mult_eq_mod of_int_diff of_int_mult)
  ultimately show ?thesis
    by (simp add: py_divmod_def)
qed

lemma py_divmod_of_int_numeral [model_simps]:
  "py_divmod (of_int a) (numeral k) = (a div numeral k, of_int (a mod numeral k))"
  using py_divmod_of_int [of a "numeral k"] by simp


text \<open>The congruence that lets recursive definitions call themselves under \<open>wbind\<close>.\<close>

lemma wbind_cong [fundef_cong]:
  assumes "m = m'" and "\<And>os a. m' = (os, Inr a) \<Longrightarrow> f a = g a"
  shows "wbind m f = wbind m' g"
  using assms by (cases m') (auto simp: wbind_def split: sum.split)


lemma snd_wbind_Inr:
  "snd (wbind m f) = Inr b \<longleftrightarrow> (\<exists>a. snd m = Inr a \<and> snd (f a) = Inr b)"
  by (cases m) (auto simp: wbind_def split: sum.split prod.split)

lemma fst_wbind:
  "fst (wbind m f) = fst m @ (case snd m of Inl e \<Rightarrow> [] | Inr a \<Rightarrow> fst (f a))"
  by (cases m) (auto simp: wbind_def split: sum.split prod.split)

lemma snd_wbind_Inl:
  "snd (wbind m f) = Inl e \<longleftrightarrow> snd m = Inl e \<or> (\<exists>a. snd m = Inr a \<and> snd (f a) = Inl e)"
  by (cases m) (auto simp: wbind_def split: sum.split prod.split)

end
