(* ===== verification/Calendar.thy ===== *)
theory Calendar
  imports Prelude
begin

text \<open>
  The calendar data \<open>src/bikeshare_2.py\<close> uses: Python's \<open>calendar.month_name\<close> (whose
  entry 0 is the empty string, used at lines 30 and 83) and \<open>calendar.day_name\<close> (line
  43), and the pandas timestamps of the \<open>Start Time\<close> column: \<open>pd.to_datetime\<close>
  (line 73) on the data files' format \<open>YYYY-MM-DD HH:MM:SS\<close>, and the accessors
  \<open>dt.month\<close> (line 76), \<open>dt.day_name()\<close> (line 77) and \<open>dt.hour\<close> (line 112).
  The weekday is computed from the day number since 1970-01-01 (a Thursday), the way
  pandas computes it from its epoch representation. \<open>to_datetime\<close> adds pandas'
  nanosecond Timestamp range to the parse. The lemmas show two things. Conversion is
  inverse to printing on the valid timestamps in that range. The day number
  increases by one from each valid date to its calendar successor (\<open>next_day\<close>), so
  the weekday names cycle as the calendar does.
\<close>

definition month_name :: "string list" where
  "month_name = ['''', ''January'', ''February'', ''March'', ''April'', ''May'', ''June'', ''July'',
     ''August'', ''September'', ''October'', ''November'', ''December'']"

definition day_name :: "string list" where
  "day_name = [''Monday'', ''Tuesday'', ''Wednesday'', ''Thursday'', ''Friday'', ''Saturday'',
     ''Sunday'']"

record timestamp =
  ts_year :: int
  ts_month :: nat
  ts_day :: nat
  ts_hour :: nat
  ts_minute :: nat
  ts_second :: nat

definition is_leap :: "int \<Rightarrow> bool" where
  "is_leap y \<longleftrightarrow> (4 dvd y \<and> \<not> 100 dvd y) \<or> 400 dvd y"

definition days_in_month :: "int \<Rightarrow> nat \<Rightarrow> nat" where
  "days_in_month y m =
     (if m = 2 then (if is_leap y then 29 else 28)
      else if m = 4 \<or> m = 6 \<or> m = 9 \<or> m = 11 then 30 else 31)"

definition valid_ts :: "timestamp \<Rightarrow> bool" where
  "valid_ts t \<longleftrightarrow> 1 \<le> ts_month t \<and> ts_month t \<le> 12 \<and> 1 \<le> ts_day t
     \<and> ts_day t \<le> days_in_month (ts_year t) (ts_month t)
     \<and> ts_hour t < 24 \<and> ts_minute t < 60 \<and> ts_second t < 60"

text \<open>Days since 1970-01-01 of a proleptic Gregorian date, by 400-year eras.\<close>

definition days_from_civil :: "int \<Rightarrow> nat \<Rightarrow> nat \<Rightarrow> int" where
  "days_from_civil y m d =
     (let y' = (if m \<le> 2 then y - 1 else y);
          era = y' div 400;
          yoe = y' - era * 400;
          mp = (int m + 9) mod 12;
          doy = (153 * mp + 2) div 5 + int d - 1;
          doe = yoe * 365 + yoe div 4 - yoe div 100 + doy
      in era * 146097 + doe - 719468)"

text \<open>\<open>dt.dayofweek\<close>: Monday is 0.\<close>

definition weekday :: "timestamp \<Rightarrow> nat" where
  "weekday t = nat ((days_from_civil (ts_year t) (ts_month t) (ts_day t) + 3) mod 7)"

definition dt_day_name :: "timestamp \<Rightarrow> string" where
  "dt_day_name t = day_name ! weekday t"

section \<open>Parsing and printing \<open>YYYY-MM-DD HH:MM:SS\<close>\<close>

definition digit_val :: "char \<Rightarrow> nat option" where
  "digit_val c = (if CHR ''0'' \<le> c \<and> c \<le> CHR ''9'' then Some (of_char c - 48) else None)"

fun parse_nat_acc :: "nat \<Rightarrow> string \<Rightarrow> nat option" where
  "parse_nat_acc acc [] = Some acc"
| "parse_nat_acc acc (c # cs) =
     (case digit_val c of None \<Rightarrow> None | Some d \<Rightarrow> parse_nat_acc (10 * acc + d) cs)"

definition parse_field :: "nat \<Rightarrow> nat \<Rightarrow> string \<Rightarrow> nat option" where
  "parse_field i n s = parse_nat_acc 0 (take n (drop i s))"

definition parse_timestamp :: "string \<Rightarrow> timestamp option" where
  "parse_timestamp s =
     (if length s = 19 \<and> s ! 4 = CHR ''-'' \<and> s ! 7 = CHR ''-'' \<and> s ! 10 = CHR '' ''
         \<and> s ! 13 = CHR '':'' \<and> s ! 16 = CHR '':''
      then (case (parse_field 0 4 s, parse_field 5 2 s, parse_field 8 2 s,
                  parse_field 11 2 s, parse_field 14 2 s, parse_field 17 2 s) of
              (Some y, Some mo, Some d, Some h, Some mi, Some se) \<Rightarrow>
                let t = \<lparr>ts_year = int y, ts_month = mo, ts_day = d,
                         ts_hour = h, ts_minute = mi, ts_second = se\<rparr>
                in if valid_ts t then Some t else None
            | _ \<Rightarrow> None)
      else None)"

fun show_pad :: "nat \<Rightarrow> nat \<Rightarrow> string" where
  "show_pad 0 k = []"
| "show_pad (Suc n) k = show_pad n (k div 10) @ [char_of (48 + k mod 10)]"

definition show_timestamp :: "timestamp \<Rightarrow> string" where
  "show_timestamp t =
     show_pad 4 (nat (ts_year t)) @ ''-'' @ show_pad 2 (ts_month t) @ ''-'' @ show_pad 2 (ts_day t)
     @ '' '' @ show_pad 2 (ts_hour t) @ '':'' @ show_pad 2 (ts_minute t) @ '':''
     @ show_pad 2 (ts_second t)"


text \<open>The calendar's successor of a date, the specification \<open>dt.day_name()\<close> is checked
  against: the next day of the month, else the first of the next month, else the first of
  January of the next year.\<close>

definition next_day :: "timestamp \<Rightarrow> timestamp" where
  "next_day t =
     (if ts_day t < days_in_month (ts_year t) (ts_month t) then t\<lparr>ts_day := ts_day t + 1\<rparr>
      else if ts_month t < 12 then t\<lparr>ts_month := ts_month t + 1, ts_day := 1\<rparr>
      else t\<lparr>ts_year := ts_year t + 1, ts_month := 1, ts_day := 1\<rparr>)"

text \<open>\<open>pd.to_datetime\<close> (pandas 2, nanosecond resolution) stores a timestamp as the signed
  64-bit count of nanoseconds since 1970-01-01 00:00:00; \<open>-2^63\<close> is reserved for \<open>NaT\<close>.
  A parsed string whose count does not fit raises \<open>OutOfBoundsDatetime\<close>, a \<open>ValueError\<close>
  like the error of a string that does not match the format; the script catches neither.\<close>

definition epoch_seconds :: "timestamp \<Rightarrow> int" where
  "epoch_seconds t = days_from_civil (ts_year t) (ts_month t) (ts_day t) * 86400
     + int (ts_hour t) * 3600 + int (ts_minute t) * 60 + int (ts_second t)"

definition ts_in_bounds :: "timestamp \<Rightarrow> bool" where
  "ts_in_bounds t \<longleftrightarrow> - (2 ^ 63) < epoch_seconds t * 10 ^ 9 \<and> epoch_seconds t * 10 ^ 9 < 2 ^ 63"

definition to_datetime :: "string \<Rightarrow> timestamp option" where
  "to_datetime s =
     (case parse_timestamp s of
        None \<Rightarrow> None
      | Some t \<Rightarrow> if ts_in_bounds t then Some t else None)"

section \<open>Printing and parsing timestamps\<close>

lemma parse_nat_acc_append:
  "parse_nat_acc acc (xs @ ys) = (case parse_nat_acc acc xs of None \<Rightarrow> None | Some a \<Rightarrow> parse_nat_acc a ys)"
  by (induction xs arbitrary: acc) (auto split: option.splits)

lemma length_show_pad [simp]: "length (show_pad n k) = n"
  by (induction n arbitrary: k) auto

lemma digit_val_char_of [simp]: "d < 10 \<Longrightarrow> digit_val (char_of (48 + d)) = Some d"
  by (simp add: digit_val_def less_eq_char_def of_char_of)

lemma parse_nat_acc_show_pad:
  "parse_nat_acc acc (show_pad n k) = Some (acc * 10 ^ n + k mod 10 ^ n)"
proof (induction n arbitrary: acc k)
  case 0 then show ?case by simp
next
  case (Suc n)
  have "10 * (acc * 10 ^ n + k div 10 mod 10 ^ n) + k mod 10 = acc * 10 ^ Suc n + k mod 10 ^ Suc n"
    by (simp add: mod_mult2_eq algebra_simps)
  then show ?case by (simp add: parse_nat_acc_append Suc)
qed

lemma digit_val_Some: "digit_val c = Some d \<Longrightarrow> d < 10 \<and> char_of (48 + d) = c"
  by (auto simp: digit_val_def less_eq_char_def split: if_splits)

lemma show_pad_parse_nat_acc:
  "parse_nat_acc 0 ds = Some v \<Longrightarrow> show_pad (length ds) v = ds \<and> v < 10 ^ length ds"
proof (induction ds arbitrary: v rule: rev_induct)
  case Nil then show ?case by simp
next
  case (snoc c ds)
  obtain a d where a: "parse_nat_acc 0 ds = Some a" and d: "digit_val c = Some d"
    and v: "v = 10 * a + d"
    using snoc.prems by (auto simp: parse_nat_acc_append split: option.splits)
  have "d < 10" "char_of (48 + d) = c" using digit_val_Some [OF d] by auto
  moreover have "show_pad (length ds) a = ds" "a < 10 ^ length ds" using snoc.IH [OF a] by auto
  ultimately show ?case by (simp add: v)
qed

lemma days_in_month_le: "days_in_month y m \<le> 31"
  by (simp add: days_in_month_def)

lemma parse_show_timestamp:
  assumes "valid_ts t" "0 \<le> ts_year t" "ts_year t < 10000"
  shows "parse_timestamp (show_timestamp t) = Some t"
proof -
  have "ts_month t < 100" "ts_day t < 100" "ts_hour t < 100" "ts_minute t < 100" "ts_second t < 100"
    using assms(1) days_in_month_le [of "ts_year t" "ts_month t"] by (auto simp: valid_ts_def)
  moreover have "nat (ts_year t) < 10000" using assms(3) by simp
  ultimately show ?thesis using assms
    by (cases t) (simp add: Let_def parse_timestamp_def show_timestamp_def parse_field_def nth_append
        parse_nat_acc_show_pad)
qed

lemma length_19_cases:
  assumes "length s = 19"
  obtains c0 c1 c2 c3 c4 c5 c6 c7 c8 c9 c10 c11 c12 c13 c14 c15 c16 c17 c18 where "s = [c0,c1,c2,c3,c4,c5,c6,c7,c8,c9,c10,c11,c12,c13,c14,c15,c16,c17,c18]"
  using assms by (simp add: length_Suc_conv numeral_eq_Suc) blast

lemma show_pad_parse_field:
  "parse_field i n s = Some v \<Longrightarrow> i + n \<le> length s \<Longrightarrow> show_pad n v = take n (drop i s) \<and> v < 10 ^ n"
  using show_pad_parse_nat_acc [of "take n (drop i s)" v] by (simp add: parse_field_def)

lemma parse_timestamp_valid: "parse_timestamp s = Some t \<Longrightarrow> valid_ts t"
  by (auto simp: parse_timestamp_def Let_def split: if_splits option.splits prod.splits)

lemma parse_timestamp_inv:
  assumes "parse_timestamp s = Some t"
  shows "show_timestamp t = s \<and> 0 \<le> ts_year t \<and> ts_year t < 10000"
proof -
  have len: "length s = 19" using assms by (simp add: parse_timestamp_def split: if_splits)
  obtain y mo d h mi se where
    f: "parse_field 0 4 s = Some y" "parse_field 5 2 s = Some mo" "parse_field 8 2 s = Some d"
       "parse_field 11 2 s = Some h" "parse_field 14 2 s = Some mi" "parse_field 17 2 s = Some se"
    and t: "t = \<lparr>ts_year = int y, ts_month = mo, ts_day = d, ts_hour = h, ts_minute = mi,
               ts_second = se\<rparr>"
    and sep: "s ! 4 = CHR ''-''" "s ! 7 = CHR ''-''" "s ! 10 = CHR '' ''" "s ! 13 = CHR '':''"
      "s ! 16 = CHR '':''"
    using assms by (auto simp: parse_timestamp_def Let_def split: option.splits if_splits)
  have p: "show_pad 4 y = take 4 s \<and> y < 10 ^ 4" "show_pad 2 mo = take 2 (drop 5 s)"
    "show_pad 2 d = take 2 (drop 8 s)" "show_pad 2 h = take 2 (drop 11 s)"
    "show_pad 2 mi = take 2 (drop 14 s)" "show_pad 2 se = take 2 (drop 17 s)"
    using f [THEN show_pad_parse_field] len by simp_all
  obtain c0 c1 c2 c3 c4 c5 c6 c7 c8 c9 c10 c11 c12 c13 c14 c15 c16 c17 c18
    where s: "s = [c0,c1,c2,c3,c4,c5,c6,c7,c8,c9,c10,c11,c12,c13,c14,c15,c16,c17,c18]"
    using length_19_cases [OF len] by blast
  show ?thesis using p sep by (simp add: t s show_timestamp_def)
qed

section \<open>Day numbers and weekdays\<close>

lemma div_plus_one:
  fixes r k :: int
  assumes k: "0 < k"
  shows "(r + 1) div k = r div k + (if k dvd r + 1 then 1 else 0)"
proof -
  define s where "s = r mod k + 1"
  have r: "r + 1 = s + r div k * k" by (simp add: s_def)
  have s: "1 \<le> s" "s \<le> k"
    using pos_mod_bound [OF k, of r] pos_mod_sign [OF k, of r] unfolding s_def by linarith+
  have div: "(r + 1) div k = r div k + s div k" unfolding r using k by simp
  have dvd: "k dvd r + 1 \<longleftrightarrow> k dvd s" unfolding r by simp
  show ?thesis
  proof (cases "s = k")
    case True then show ?thesis using div dvd k by simp
  next
    case False
    then have "s div k = 0" "\<not> k dvd s" using s by (auto simp: zdvd_not_zless)
    then show ?thesis using div dvd by simp
  qed
qed

lemma days_from_civil_march:
  "days_from_civil y 3 1 = y div 400 * 146097 + y mod 400 * 365 + y mod 400 div 4
     - y mod 400 div 100 - 719468"
  by (simp add: days_from_civil_def Let_def minus_div_mult_eq_mod [symmetric] mult.commute)

lemma dvd_shift_400:
  fixes q r :: int
  shows "4 dvd 400 * q + r + 1 \<longleftrightarrow> 4 dvd r + 1" "100 dvd 400 * q + r + 1 \<longleftrightarrow> 100 dvd r + 1"
    "400 dvd 400 * q + r + 1 \<longleftrightarrow> 400 dvd r + 1"
  by (simp_all add: add.assoc dvd_add_right_iff)

lemma era_step_inner:
  fixes r :: int
  assumes "0 \<le> r" "r + 1 < 400"
  shows "(r + 1) * 365 + (r + 1) div 4 - (r + 1) div 100
    = r * 365 + r div 4 - r div 100 + 365 + (if 4 dvd r + 1 \<and> \<not> 100 dvd r + 1 then 1 else 0)"
proof -
  have "100 dvd r + 1 \<Longrightarrow> 4 dvd r + 1" by (erule dvd_trans [rotated]) simp
  then show ?thesis by (simp add: div_plus_one)
qed

lemma days_from_civil_march_step:
  "days_from_civil (y + 1) 3 1 = days_from_civil y 3 1 + 365 + (if is_leap (y + 1) then 1 else 0)"
proof -
  define q r where "q = y div 400" and "r = y mod 400"
  have y: "y = 400 * q + r" and r: "0 \<le> r" "r < 400" by (simp_all add: q_def r_def)
  have leap: "is_leap (y + 1) \<longleftrightarrow> (4 dvd r + 1 \<and> \<not> 100 dvd r + 1) \<or> 400 dvd r + 1"
    unfolding is_leap_def y dvd_shift_400 ..
  show ?thesis
  proof (cases "r = 399")
    case True
    then have "(y + 1) div 400 = q + 1" "(y + 1) mod 400 = 0" "is_leap (y + 1)"
      using leap by (simp_all add: y)
    then show ?thesis unfolding days_from_civil_march using True
      by (simp add: q_def [symmetric] r_def [symmetric])
  next
    case False
    then have r1: "r + 1 < 400" using r by simp
    have d: "(y + 1) div 400 = q" and m: "(y + 1) mod 400 = r + 1"
      using r r1 unfolding y by (simp_all add: add.assoc)
    have "\<not> 400 dvd r + 1" using r r1 zdvd_not_zless [of "r + 1" 400] by simp
    then have L: "is_leap (y + 1) \<longleftrightarrow> 4 dvd r + 1 \<and> \<not> 100 dvd r + 1" using leap by simp
    show ?thesis unfolding days_from_civil_march d m L q_def [symmetric] r_def [symmetric]
      using era_step_inner [OF r(1) r1] by linarith
  qed
qed

lemma days_from_civil_base:
  "days_from_civil y m d = days_from_civil (if m \<le> 2 then y - 1 else y) 3 1
     + (153 * ((int m + 9) mod 12) + 2) div 5 + int d - 1"
  by (simp add: days_from_civil_def Let_def)

lemma days_from_civil_next_day:
  assumes "valid_ts t"
  shows "days_from_civil (ts_year (next_day t)) (ts_month (next_day t)) (ts_day (next_day t))
       = days_from_civil (ts_year t) (ts_month t) (ts_day t) + 1"
proof -
  obtain y m d where t: "ts_year t = y" "ts_month t = m" "ts_day t = d" by blast
  have m: "1 \<le> m" "m \<le> 12" and d: "1 \<le> d" "d \<le> days_in_month y m"
    using assms by (simp_all add: valid_ts_def t)
  consider "d < days_in_month y m" | "d = days_in_month y m" "m = 2"
    | "d = days_in_month y m" "m \<noteq> 2" "m < 12" | "d = days_in_month y m" "m = 12"
    using d m by linarith
  then show ?thesis
  proof cases
    case 1 then show ?thesis by (simp add: next_day_def t days_from_civil_def Let_def)
  next
    case 2
    have "days_from_civil y 2 d = days_from_civil (y - 1) 3 1 + 336 + int d"
      by (simp add: days_from_civil_base [of y 2 d])
    then show ?thesis using 2 days_from_civil_march_step [of "y - 1"]
      by (simp add: next_day_def t days_in_month_def)
  next
    case 3
    then have "m = 1 \<or> m = 3 \<or> m = 4 \<or> m = 5 \<or> m = 6 \<or> m = 7 \<or> m = 8 \<or> m = 9
      \<or> m = 10 \<or> m = 11" using m by presburger
    then show ?thesis using 3
      by (elim disjE) (simp_all add: next_day_def t days_in_month_def days_from_civil_def Let_def)
  next
    case 4
    then show ?thesis
      by (simp add: next_day_def t days_in_month_def days_from_civil_def Let_def)
  qed
qed


lemma nat_mod_7_succ: "nat ((x + 1) mod 7) = (nat (x mod 7) + 1) mod 7"
proof -
  have "(x + 1) mod 7 = (x mod 7 + 1) mod 7" by (simp add: mod_add_left_eq)
  moreover have "0 \<le> x mod 7" "x mod 7 < 7" by simp_all
  ultimately show ?thesis by (simp add: nat_mod_distrib nat_add_distrib)
qed

lemma weekday_next_day:
  "valid_ts t \<Longrightarrow> weekday (next_day t) = (weekday t + 1) mod 7"
  using nat_mod_7_succ [of "days_from_civil (ts_year t) (ts_month t) (ts_day t) + 3"]
  by (simp add: weekday_def days_from_civil_next_day algebra_simps)


text \<open>C34: \<open>dt.day_name()\<close> follows the calendar: 1970-01-01 is a Thursday and every
  valid date's successor (across month ends, February of leap and common years, year and
  400-year era boundaries) has the next weekday name, Monday following Sunday.\<close>

theorem dt_day_name_next_day:
  assumes "valid_ts t"
  shows "dt_day_name \<lparr>ts_year = 1970, ts_month = 1, ts_day = 1, ts_hour = 0, ts_minute = 0,
      ts_second = 0\<rparr> = ''Thursday''
    \<and> dt_day_name (next_day t) = day_name ! ((weekday t + 1) mod 7)"
proof
  show "dt_day_name \<lparr>ts_year = 1970, ts_month = 1, ts_day = 1, ts_hour = 0, ts_minute = 0,
      ts_second = 0\<rparr> = ''Thursday''"
    by code_simp
  show "dt_day_name (next_day t) = day_name ! ((weekday t + 1) mod 7)"
    using weekday_next_day [OF assms] by (simp add: dt_day_name_def)
qed

theorem dt_day_name_next_day_witness:
  "dt_day_name (next_day \<lparr>ts_year = 2016, ts_month = 2, ts_day = 29, ts_hour = 23, ts_minute = 59,
      ts_second = 59\<rparr>) = ''Tuesday''
   \<and> dt_day_name \<lparr>ts_year = 1970, ts_month = 1, ts_day = 1, ts_hour = 0, ts_minute = 0,
      ts_second = 0\<rparr> = ''Thursday''"
proof -
  have v: "valid_ts \<lparr>ts_year = 2016, ts_month = 2, ts_day = 29, ts_hour = 23, ts_minute = 59,
      ts_second = 59\<rparr>"
    by (simp add: valid_ts_def days_in_month_def is_leap_def)
  have "day_name ! ((weekday \<lparr>ts_year = 2016, ts_month = 2, ts_day = 29, ts_hour = 23,
      ts_minute = 59, ts_second = 59\<rparr> + 1) mod 7) = ''Tuesday''"
    by code_simp
  with dt_day_name_next_day [OF v] show ?thesis
    by simp
qed


lemma year_of_days_from_civil:
  assumes "1 \<le> m" "m \<le> 12" "1 \<le> d" "d \<le> 31"
  shows "(y < 0 \<longrightarrow> days_from_civil y m d < - 700000) \<and> (10000 \<le> y \<longrightarrow> 2000000 < days_from_civil y m d)"
proof -
  define y' where "y' = (if m \<le> 2 then y - 1 else y)"
  define q r where "q = y' div 400" and "r = y' mod 400"
  have r: "0 \<le> r" "r < 400" by (simp_all add: r_def)
  have "r div 100 \<le> r div 4" using r by (intro zdiv_mono2) simp_all
  moreover have "r div 4 \<le> 399 div 4" using r by (intro zdiv_mono1) simp_all
  moreover have "0 \<le> r div 100" using r by simp
  ultimately have R: "0 \<le> r * 365 + r div 4 - r div 100" "r * 365 + r div 4 - r div 100 \<le> 146096"
    using r by simp_all
  have "(int m + 9) mod 12 \<le> 11" by simp
  then have "(153 * ((int m + 9) mod 12) + 2) div 5 \<le> (153 * 11 + 2) div 5"
    by (intro zdiv_mono1) simp_all
  moreover have "0 \<le> (153 * ((int m + 9) mod 12) + 2) div 5" by simp
  ultimately have O: "0 \<le> (153 * ((int m + 9) mod 12) + 2) div 5 + int d - 1"
    "(153 * ((int m + 9) mod 12) + 2) div 5 + int d - 1 \<le> 367"
    using assms by simp_all
  have D: "days_from_civil y m d = q * 146097 + (r * 365 + r div 4 - r div 100) - 719468
      + ((153 * ((int m + 9) mod 12) + 2) div 5 + int d - 1)"
    unfolding days_from_civil_base [of y m d] y'_def [symmetric] days_from_civil_march q_def r_def
    by simp
  have "y < 0 \<Longrightarrow> q \<le> - 1"
  proof -
    assume "y < 0"
    then have "y' < 0" by (simp add: y'_def)
    then show "q \<le> - 1" using pos_imp_zdiv_neg_iff [of 400 y'] by (simp add: q_def)
  qed
  moreover have "10000 \<le> y \<Longrightarrow> 24 \<le> q"
  proof -
    assume "10000 \<le> y"
    then have "9999 div 400 \<le> y' div 400" unfolding y'_def by (intro zdiv_mono1) simp_all
    then show "24 \<le> q" by (simp add: q_def)
  qed
  ultimately show ?thesis using D R O by linarith
qed

lemma ts_in_bounds_year:
  assumes "valid_ts t" and "ts_in_bounds t"
  shows "0 \<le> ts_year t \<and> ts_year t < 10000"
proof -
  have v: "1 \<le> ts_month t" "ts_month t \<le> 12" "1 \<le> ts_day t" "ts_day t \<le> 31"
    "ts_hour t < 24" "ts_minute t < 60" "ts_second t < 60"
    using assms(1) days_in_month_le [of "ts_year t" "ts_month t"] by (auto simp: valid_ts_def)
  define D where "D = days_from_civil (ts_year t) (ts_month t) (ts_day t)"
  have e: "epoch_seconds t = D * 86400 + (int (ts_hour t) * 3600 + int (ts_minute t) * 60 + int (ts_second t))"
    by (simp add: epoch_seconds_def D_def)
  have "0 \<le> int (ts_hour t) * 3600 + int (ts_minute t) * 60 + int (ts_second t)"
    "int (ts_hour t) * 3600 + int (ts_minute t) * 60 + int (ts_second t) < 86400"
    using v by simp_all
  moreover have "- 9223372036854775808 < epoch_seconds t * 1000000000"
    "epoch_seconds t * 1000000000 < 9223372036854775808"
    using assms(2) by (simp_all add: ts_in_bounds_def)
  moreover have "(ts_year t < 0 \<longrightarrow> D < - 700000) \<and> (10000 \<le> ts_year t \<longrightarrow> 2000000 < D)"
    unfolding D_def using v by (intro year_of_days_from_civil) simp_all
  ultimately show ?thesis using e by linarith
qed

lemma parse_timestamp_iff:
  "parse_timestamp s = Some t \<longleftrightarrow>
     valid_ts t \<and> 0 \<le> ts_year t \<and> ts_year t < 10000 \<and> s = show_timestamp t"
  using parse_timestamp_valid [of s t] parse_timestamp_inv [of s t] parse_show_timestamp [of t]
  by auto

lemma to_datetime_parse:
  "to_datetime s = Some t \<longleftrightarrow> parse_timestamp s = Some t \<and> ts_in_bounds t"
  by (auto simp: to_datetime_def split: option.split)

lemma to_datetime_valid: "to_datetime s = Some t \<Longrightarrow> valid_ts t"
  using parse_timestamp_valid by (auto simp: to_datetime_parse)

lemma to_datetime_None: "parse_timestamp s = None \<Longrightarrow> to_datetime s = None"
  by (simp add: to_datetime_def)

text \<open>C33: \<open>pd.to_datetime\<close> on the files' format \<open>YYYY-MM-DD HH:MM:SS\<close> accepts a string
  exactly when it is the printed form of a valid timestamp that pandas can represent
  (its nanoseconds since the epoch fit in 64 bits), and returns that timestamp: conversion
  and printing are inverse on the representable timestamps.\<close>

theorem to_datetime_iff:
  "to_datetime s = Some t \<longleftrightarrow> valid_ts t \<and> ts_in_bounds t \<and> s = show_timestamp t"
  using to_datetime_parse [of s t] parse_timestamp_iff [of s t] ts_in_bounds_year [of t]
  by blast

theorem to_datetime_iff_witness:
  "to_datetime ''2017-06-23 15:09:32'' =
     Some \<lparr>ts_year = 2017, ts_month = 6, ts_day = 23, ts_hour = 15, ts_minute = 9, ts_second = 32\<rparr>
   \<and> to_datetime ''1500-01-01 00:00:00'' = None"
proof -
  have "show_timestamp \<lparr>ts_year = 2017, ts_month = 6, ts_day = 23, ts_hour = 15, ts_minute = 9,
      ts_second = 32\<rparr> = ''2017-06-23 15:09:32''"
    by code_simp
  moreover have "ts_in_bounds \<lparr>ts_year = 2017, ts_month = 6, ts_day = 23, ts_hour = 15,
      ts_minute = 9, ts_second = 32\<rparr>"
    by code_simp
  moreover have "to_datetime ''1500-01-01 00:00:00'' = None"
    by code_simp
  ultimately show ?thesis
    using to_datetime_iff [of "''2017-06-23 15:09:32''"
        "\<lparr>ts_year = 2017, ts_month = 6, ts_day = 23, ts_hour = 15, ts_minute = 9, ts_second = 32\<rparr>"]
    by (simp add: valid_ts_def days_in_month_def)
qed

end
