(* ===== verification/Aggregates.thy ===== *)
theory Aggregates
  imports Prelude
begin

text \<open>
  The pandas \<open>Series\<close> aggregates that the statistics of \<open>src/bikeshare_2.py\<close> call:
  \<open>mode()[0]\<close> (lines 105, 109, 113, 129, 135, 142, 207), \<open>value_counts()\<close> (lines 190,
  198), \<open>sum()\<close> (155), \<open>mean()\<close> (159), \<open>min()\<close> and \<open>max()\<close> (205, 206). A column
  is a list of cells, \<open>None\<close> standing for NaN; every aggregate skips NaN as pandas
  does by default. Counting is one pass over the column that keeps the categories in the
  order they are first seen (\<open>tally\<close>); the mode is the sorted list of the values of
  highest count, and \<open>mode()[0]\<close> raises \<open>KeyError\<close> when that list is empty.
  The lemmas relate each aggregate to a specification in terms of \<open>count_list\<close>,
  \<open>Max\<close> and \<open>Min\<close>.
\<close>

type_synonym 'a series = "'a option list"

section \<open>Definitions\<close>

fun dropna :: "'a series \<Rightarrow> 'a list" where
  "dropna [] = []"
| "dropna (None # xs) = dropna xs"
| "dropna (Some x # xs) = x # dropna xs"

text \<open>One step of the counting pass: increment the category, or append it with count 1.\<close>

fun bump :: "('a \<times> nat) list \<Rightarrow> 'a \<Rightarrow> ('a \<times> nat) list" where
  "bump [] x = [(x, 1)]"
| "bump ((y, c) # ps) x = (if y = x then (y, Suc c) # ps else (y, c) # bump ps x)"

definition tally :: "'a list \<Rightarrow> ('a \<times> nat) list" where
  "tally xs = foldl bump [] xs"

definition max_count :: "('a \<times> nat) list \<Rightarrow> nat" where
  "max_count t = foldl max 0 (map snd t)"

text \<open>\<open>Series.mode()\<close>: the values of highest count, sorted.\<close>

definition series_mode :: "'a::linorder series \<Rightarrow> 'a list" where
  "series_mode s =
     (let t = tally (dropna s) in sort (map fst (filter (\<lambda>(v, c). c = max_count t) t)))"

text \<open>\<open>Series.mode()[0]\<close>: label 0 of the result, \<open>KeyError\<close> on an empty result.\<close>

definition mode_first :: "'a::linorder series \<Rightarrow> 'a result" where
  "mode_first s = (case series_mode s of [] \<Rightarrow> Inl KeyError | m # _ \<Rightarrow> Inr m)"

text \<open>\<open>Series.value_counts()\<close>: the counts by decreasing count, ties in first-seen order.\<close>

definition value_counts :: "'a series \<Rightarrow> ('a \<times> nat) list" where
  "value_counts s = sort_key (\<lambda>(v, c). - int c) (tally (dropna s))"

definition series_sum :: "rat series \<Rightarrow> rat" where
  "series_sum s = sum_list (dropna s)"

text \<open>\<open>Series.mean()\<close>: NaN (\<open>None\<close>) when no cell is a number.\<close>

definition series_mean :: "rat series \<Rightarrow> rat option" where
  "series_mean s =
     (let ys = dropna s in if ys = [] then None else Some (sum_list ys / of_nat (length ys)))"

definition series_min :: "'a::linorder series \<Rightarrow> 'a option" where
  "series_min s = (case dropna s of [] \<Rightarrow> None | y # ys \<Rightarrow> Some (foldl min y ys))"

definition series_max :: "'a::linorder series \<Rightarrow> 'a option" where
  "series_max s = (case dropna s of [] \<Rightarrow> None | y # ys \<Rightarrow> Some (foldl max y ys))"

section \<open>Specifications\<close>

text \<open>The categories of a column in the order they are first seen.\<close>

definition first_seen :: "'a list \<Rightarrow> 'a list" where
  "first_seen xs = rev (remdups (rev xs))"

definition is_mode :: "'a list \<Rightarrow> 'a \<Rightarrow> bool" where
  "is_mode ys m \<longleftrightarrow> m \<in> set ys \<and> (\<forall>v \<in> set ys. count_list ys v \<le> count_list ys m)"

section \<open>Counting\<close>

lemma set_dropna [simp]: "set (dropna s) = {x. Some x \<in> set s}"
  by (induction s rule: dropna.induct) auto

lemma dropna_append [simp]: "dropna (s @ t) = dropna s @ dropna t"
  by (induction s rule: dropna.induct) auto

lemma dropna_map_Some [simp]: "dropna (map Some xs) = xs"
  by (induction xs) auto

lemma first_seen_simps [simp]:
  "first_seen [] = []"
  "first_seen (xs @ [x]) = (if x \<in> set xs then first_seen xs else first_seen xs @ [x])"
  by (simp_all add: first_seen_def)

lemma set_first_seen [simp]: "set (first_seen xs) = set xs"
  by (simp add: first_seen_def)

lemma distinct_first_seen [simp]: "distinct (first_seen xs)"
  by (simp add: first_seen_def)

lemma bump_counts:
  assumes "distinct ks" and "x \<in> set xs \<longrightarrow> x \<in> set ks"
  shows "bump (map (\<lambda>v. (v, count_list xs v)) ks) x
    = map (\<lambda>v. (v, count_list (xs @ [x]) v)) (if x \<in> set ks then ks else ks @ [x])"
  using assms
proof (induction ks)
  case Nil
  then show ?case by (auto simp: count_list_0_iff)
next
  case (Cons k ks)
  show ?case
  proof (cases "k = x")
    case True
    with Cons.prems show ?thesis by auto
  next
    case False
    with Cons.prems have "distinct ks" "x \<in> set xs \<longrightarrow> x \<in> set ks"
      by auto
    with Cons.IH False show ?thesis by auto
  qed
qed

lemma tally_snoc: "tally (xs @ [x]) = bump (tally xs) x"
  by (simp add: tally_def)

text \<open>The one-pass count is the count of every category, in first-seen order.\<close>

lemma tally_spec: "tally xs = map (\<lambda>v. (v, count_list xs v)) (first_seen xs)"
proof (induction xs rule: rev_induct)
  case Nil
  then show ?case by (simp add: tally_def)
next
  case (snoc x xs)
  have "tally (xs @ [x]) = bump (map (\<lambda>v. (v, count_list xs v)) (first_seen xs)) x"
    by (simp add: tally_snoc snoc.IH)
  also have "\<dots> = map (\<lambda>v. (v, count_list (xs @ [x]) v))
      (if x \<in> set (first_seen xs) then first_seen xs else first_seen xs @ [x])"
    by (rule bump_counts) simp_all
  finally show ?case by simp
qed

lemma map_of_counts:
  "map_of (map (\<lambda>v. (v, f v)) ks) v = (if v \<in> set ks then Some (f v) else None)"
  by (induction ks) auto

lemma filter_counts:
  "filter (\<lambda>p. snd p = k) (map (\<lambda>v. (v, f v)) ks) = map (\<lambda>v. (v, k)) (filter (\<lambda>v. f v = k) ks)"
  by (induction ks) auto

section \<open>Maxima and minima\<close>

lemma foldl_max_eq: "foldl max (a::'a::linorder) xs = Max (insert a (set xs))"
  by (simp add: foldl_conv_fold Max.set_eq_fold [symmetric] max.commute)

lemma foldl_min_eq: "foldl min (a::'a::linorder) xs = Min (insert a (set xs))"
  by (simp add: foldl_conv_fold Min.set_eq_fold [symmetric] min.commute)

lemma max_count_tally:
  "max_count (tally ys) = Max (insert 0 (count_list ys ` set ys))"
  by (simp add: max_count_def tally_spec foldl_max_eq image_image)

lemma max_count_attained:
  assumes "v \<in> set ys"
  shows "count_list ys v = max_count (tally ys) \<longleftrightarrow> (\<forall>w \<in> set ys. count_list ys w \<le> count_list ys v)"
proof
  assume "count_list ys v = max_count (tally ys)"
  then show "\<forall>w \<in> set ys. count_list ys w \<le> count_list ys v"
    by (simp add: max_count_tally)
next
  assume "\<forall>w \<in> set ys. count_list ys w \<le> count_list ys v"
  then have "Max (insert 0 (count_list ys ` set ys)) = count_list ys v"
    using assms by (intro Max_eqI) auto
  then show "count_list ys v = max_count (tally ys)"
    by (simp add: max_count_tally)
qed

lemma mode_exists:
  assumes "ys \<noteq> []"
  shows "\<exists>m. is_mode ys m"
proof -
  let ?C = "count_list ys ` set ys"
  have "finite ?C" "?C \<noteq> {}"
    using assms by simp_all
  then have "Max ?C \<in> ?C"
    by (rule Max_in)
  then obtain m where m: "m \<in> set ys" "count_list ys m = Max ?C"
    by auto
  have "\<forall>v \<in> set ys. count_list ys v \<le> count_list ys m"
    using m(2) by simp
  with m(1) show ?thesis
    unfolding is_mode_def by blast
qed

section \<open>The mode\<close>

lemma fst_filter_counts:
  "map fst (filter (\<lambda>(v, c). c = M) (map (\<lambda>v. (v, f v)) ks)) = filter (\<lambda>v. f v = M) ks"
  by (induction ks) auto

lemma series_mode_eq:
  "series_mode s = sort (filter (\<lambda>v. count_list (dropna s) v = max_count (tally (dropna s)))
     (first_seen (dropna s)))"
  unfolding series_mode_def Let_def by (simp only: tally_spec fst_filter_counts)

lemma set_series_mode: "set (series_mode s) = {m. is_mode (dropna s) m}"
  by (auto simp: series_mode_eq is_mode_def max_count_attained)

lemma sorted_series_mode: "sorted (series_mode s) \<and> distinct (series_mode s)"
  by (simp add: series_mode_eq)

lemma series_mode_Nil_iff: "series_mode s = [] \<longleftrightarrow> dropna s = []"
proof
  assume "series_mode s = []"
  then have "\<not> (\<exists>m. is_mode (dropna s) m)"
    using set_series_mode [of s] by auto
  then show "dropna s = []"
    using mode_exists by blast
next
  assume "dropna s = []"
  then show "series_mode s = []"
    by (simp add: series_mode_eq)
qed

lemma mode_first_Inr_iff:
  "mode_first s = Inr m \<longleftrightarrow> is_mode (dropna s) m \<and> (\<forall>v. is_mode (dropna s) v \<longrightarrow> m \<le> v)"
proof -
  have mem: "v \<in> set (series_mode s) \<longleftrightarrow> is_mode (dropna s) v" for v
    by (simp add: set_series_mode)
  show ?thesis
  proof (cases "series_mode s")
    case Nil
    then show ?thesis
      using mem by (auto simp: mode_first_def)
  next
    case (Cons a rest)
    have "sorted (a # rest)"
      using sorted_series_mode [of s] Cons by simp
    have least: "\<forall>v. is_mode (dropna s) v \<longrightarrow> a \<le> v"
    proof (intro allI impI)
      fix v
      assume "is_mode (dropna s) v"
      then have "v \<in> set (a # rest)"
        using mem Cons by simp
      with \<open>sorted (a # rest)\<close> show "a \<le> v"
        by auto
    qed
    have "is_mode (dropna s) a"
      using mem [of a] Cons by simp
    with least show ?thesis
      by (auto simp: mode_first_def Cons intro: order.antisym)
  qed
qed

lemma mode_first_Inl_iff:
  "mode_first s = Inl e \<longleftrightarrow> e = KeyError \<and> dropna s = []"
  using series_mode_Nil_iff [of s]
  by (auto simp: mode_first_def split: list.split)

text \<open>C2: \<open>Series.mode()[0]\<close> returns exactly the smallest of the most frequent
  non-NaN values: the documented tie-break "smallest natural value wins".\<close>

theorem mode_first_spec:
  "mode_first s = Inr m \<longleftrightarrow> is_mode (dropna s) m \<and> (\<forall>v. is_mode (dropna s) v \<longrightarrow> m \<le> v)"
  by (rule mode_first_Inr_iff)

text \<open>C15: \<open>Series.mode()[0]\<close> fails, with \<open>KeyError\<close>, exactly on a column with no
  non-NaN value, an empty filtered column in particular; it raises nothing else.\<close>

theorem mode_first_error:
  "mode_first s = Inl e \<longleftrightarrow> e = KeyError \<and> dropna s = []"
  by (rule mode_first_Inl_iff)

theorem mode_first_spec_witness:
  "mode_first [Some (3::int), Some 3, Some 5, Some 5] = Inr 3 \<and> is_mode [3, 3, 5, 5::int] 3
   \<and> is_mode [3, 3, 5, 5::int] 5"
proof -
  have eq: "mode_first [Some (3::int), Some 3, Some 5, Some 5] = Inr 3"
    by code_simp
  have "is_mode [3, 3, 5, 5::int] 5"
    by (simp add: is_mode_def)
  with eq mode_first_spec [of "[Some (3::int), Some 3, Some 5, Some 5]" 3] show ?thesis
    by simp
qed

theorem mode_first_error_witness:
  "mode_first ([] :: int series) = Inl KeyError \<and> mode_first [None :: string option] = Inl KeyError"
  using mode_first_error [of "[] :: int series" KeyError] mode_first_error [of "[None :: string option]" KeyError]
  by simp

section \<open>Value counts\<close>

lemma value_counts_eq:
  "value_counts s = sort_key (\<lambda>(v, c). - int c)
     (map (\<lambda>v. (v, count_list (dropna s) v)) (first_seen (dropna s)))"
  by (simp add: value_counts_def tally_spec)

lemma distinct_fst_sort_key:
  assumes "distinct (map fst t)"
  shows "distinct (map fst (sort_key f t))"
proof -
  have "distinct t" "inj_on fst (set t)"
    using assms by (simp_all add: distinct_map)
  then show ?thesis
    by (simp add: distinct_map)
qed

text \<open>C10: \<open>value_counts()\<close> reports every non-NaN category once, with its number of
  occurrences in the column, and nothing else.\<close>

theorem value_counts_counts:
  "map_of (value_counts s) = (\<lambda>v. if Some v \<in> set s then Some (count_list (dropna s) v) else None)
   \<and> distinct (map fst (value_counts s))"
proof
  let ?t = "map (\<lambda>v. (v, count_list (dropna s) v)) (first_seen (dropna s))"
  have dt: "distinct (map fst ?t)"
    by (simp add: comp_def)
  then have "map_of (sort_key (\<lambda>(v, c). - int c) ?t) = map_of ?t"
    by (simp add: map_of_inject_set distinct_fst_sort_key)
  then show "map_of (value_counts s) = (\<lambda>v. if Some v \<in> set s then Some (count_list (dropna s) v) else None)"
    by (simp add: value_counts_eq map_of_counts fun_eq_iff)
  show "distinct (map fst (value_counts s))"
    using dt by (simp add: value_counts_eq distinct_fst_sort_key)
qed

text \<open>C11: \<open>value_counts()\<close> lists the categories by decreasing count, and categories
  of equal count in the order they first occur in the column.\<close>

theorem value_counts_order:
  "sorted_wrt (\<lambda>p q. snd q \<le> snd p) (value_counts s)
   \<and> (\<forall>k. filter (\<lambda>p. snd p = k) (value_counts s)
          = map (\<lambda>v. (v, k)) (filter (\<lambda>v. count_list (dropna s) v = k) (first_seen (dropna s))))"
proof
  let ?f = "\<lambda>(v::'a, c::nat). - int c"
  have "sorted (map ?f (value_counts s))"
    by (simp add: value_counts_def)
  then show "sorted_wrt (\<lambda>p q. snd q \<le> snd p) (value_counts s)"
    by (simp add: sorted_map case_prod_beta)
  show "\<forall>k. filter (\<lambda>p. snd p = k) (value_counts s)
          = map (\<lambda>v. (v, k)) (filter (\<lambda>v. count_list (dropna s) v = k) (first_seen (dropna s)))"
  proof
    fix k
    have key: "(\<lambda>p. snd p = k) = (\<lambda>p. ?f p = - int k)"
      by (auto simp: fun_eq_iff)
    show "filter (\<lambda>p. snd p = k) (value_counts s)
          = map (\<lambda>v. (v, k)) (filter (\<lambda>v. count_list (dropna s) v = k) (first_seen (dropna s)))"
      unfolding key value_counts_def sort_key_stable
      by (simp add: tally_spec filter_counts flip: key)
  qed
qed

section \<open>Sum, mean, minimum, maximum\<close>

lemma series_min_eq:
  "series_min s = (if dropna s = [] then None else Some (Min (set (dropna s))))"
  by (cases "dropna s") (simp_all add: series_min_def foldl_min_eq del: set_dropna)

lemma series_max_eq:
  "series_max s = (if dropna s = [] then None else Some (Max (set (dropna s))))"
  by (cases "dropna s") (simp_all add: series_max_def foldl_max_eq del: set_dropna)

end
