(* ===== verification/Frame.thy ===== *)
theory Frame
  imports Calendar Aggregates
begin

text \<open>
  The data loader and record filter, \<open>load_data\<close> (lines 58--95 of
  \<open>src/bikeshare_2.py\<close>), and the dataset they produce. A city's CSV file is a
  \<open>table\<close>: a header (the column names present) and rows holding the raw start time and
  the cells of the six optional columns (\<open>None\<close> for NaN, and for every cell of a
  column the file lacks). The files are a map from file names to tables; a name the map
  does not hold is a missing file. \<open>load_data\<close> looks the city up in
  \<open>CITY_DATA\<close> (lines 6--8), reads the file, parses every start time (failing on the
  first that does not parse), adds the derived \<open>month\<close> and \<open>day_of_week\<close> columns
  and keeps the rows of the requested month and weekday, in their original order.
\<close>

section \<open>The data model\<close>

record cells =
  start_station :: "string option"
  end_station :: "string option"
  trip_duration :: "rat option"
  user_type :: "string option"
  gender :: "string option"
  birth_year :: "int option"

record raw_row =
  raw_start_time :: string
  raw_cells :: cells

record table =
  header :: "string list"
  records :: "raw_row list"

record row =
  start_time :: timestamp
  month_col :: nat
  day_of_week :: string
  row_cells :: cells

record frame =
  columns :: "string list"
  rows :: "row list"

type_synonym files = "string \<Rightarrow> table option"

section \<open>Loading\<close>

definition CITY_DATA :: "(string \<times> string) list" where
  "CITY_DATA = [(''chicago'', ''chicago.csv''), (''new york city'', ''new_york_city.csv''),
     (''washington'', ''washington.csv'')]"

definition read_csv :: "files \<Rightarrow> string \<Rightarrow> table result" where
  "read_csv fs fname = (case fs fname of None \<Rightarrow> Inl FileNotFoundError | Some t \<Rightarrow> Inr t)"

text \<open>\<open>pd.to_datetime\<close> on the \<open>Start Time\<close> column: the whole column or an error.\<close>

fun to_datetime_col :: "raw_row list \<Rightarrow> (timestamp \<times> cells) list result" where
  "to_datetime_col [] = Inr []"
| "to_datetime_col (r # rs) =
     (case to_datetime (raw_start_time r) of
        None \<Rightarrow> Inl ParserError
      | Some t \<Rightarrow> res_bind (to_datetime_col rs) (\<lambda>ps. Inr ((t, raw_cells r) # ps)))"

text \<open>Assigning \<open>df[name]\<close> adds the column at the end unless it is there already.\<close>

definition add_column :: "string \<Rightarrow> string list \<Rightarrow> string list" where
  "add_column name cols = (if name \<in> set cols then cols else cols @ [name])"

definition derive_row :: "timestamp \<times> cells \<Rightarrow> row" where
  "derive_row p = (case p of (t, c) \<Rightarrow>
     \<lparr>start_time = t, month_col = ts_month t, day_of_week = dt_day_name t, row_cells = c\<rparr>)"

definition read_frame :: "files \<Rightarrow> string \<Rightarrow> frame result" where
  "read_frame fs city =
     res_bind (dict_get CITY_DATA city) (\<lambda>fname.
     res_bind (read_csv fs fname) (\<lambda>t.
       if ''Start Time'' \<notin> set (header t) then Inl KeyError
       else res_bind (to_datetime_col (records t)) (\<lambda>ps.
         Inr \<lparr>columns = add_column ''day_of_week'' (add_column ''month'' (header t)),
              rows = map derive_row ps\<rparr>)))"

section \<open>Filtering\<close>

text \<open>Lines 83--85: the 1-based index of a lower-case month name, \<open>ValueError\<close> if none.\<close>

definition month_index :: "string \<Rightarrow> nat result" where
  "month_index month = res_bind (py_index (tl (map py_lower month_name)) month) (\<lambda>i. Inr (i + 1))"

definition filter_month :: "nat \<Rightarrow> frame \<Rightarrow> frame" where
  "filter_month m df = df\<lparr>rows := filter (\<lambda>r. month_col r = m) (rows df)\<rparr>"

definition filter_day :: "string \<Rightarrow> frame \<Rightarrow> frame" where
  "filter_day d df = df\<lparr>rows := filter (\<lambda>r. day_of_week r = d) (rows df)\<rparr>"

definition apply_filters :: "frame \<Rightarrow> string \<Rightarrow> string \<Rightarrow> frame result" where
  "apply_filters df month day =
     res_bind (if month \<noteq> ''all'' then res_bind (month_index month) (\<lambda>m. Inr (filter_month m df))
               else Inr df) (\<lambda>df.
     Inr (if day \<noteq> ''all'' then filter_day (py_title day) df else df))"

definition load_data :: "files \<Rightarrow> string \<Rightarrow> string \<Rightarrow> string \<Rightarrow> frame result" where
  "load_data fs city month day = res_bind (read_frame fs city) (\<lambda>df. apply_filters df month day)"

section \<open>A sample dataset\<close>

text \<open>Three trips in the layout of \<open>washington.csv\<close> (no \<open>Gender\<close> and no \<open>Birth
  Year\<close> column, fractional durations), used to instantiate the theorems below.\<close>

definition sample_cells :: "string \<Rightarrow> string \<Rightarrow> rat \<Rightarrow> string \<Rightarrow> cells" where
  "sample_cells a b d u = \<lparr>start_station = Some a, end_station = Some b, trip_duration = Some d,
     user_type = Some u, gender = None, birth_year = None\<rparr>"

definition sample_table :: table where
  "sample_table =
     \<lparr>header = [''Start Time'', ''Trip Duration'', ''Start Station'', ''End Station'', ''User Type''],
      records =
        [\<lparr>raw_start_time = ''2017-01-01 09:07:57'', raw_cells = sample_cells ''A'' ''B'' 600 ''Subscriber''\<rparr>,
         \<lparr>raw_start_time = ''2017-01-02 09:30:00'', raw_cells = sample_cells ''A'' ''C'' (1196/10) ''Customer''\<rparr>,
         \<lparr>raw_start_time = ''2017-06-23 15:00:00'', raw_cells = sample_cells ''B'' ''B'' 300 ''Subscriber''\<rparr>]\<rparr>"

definition sample_files :: files where
  "sample_files n = (if n = ''washington.csv'' then Some sample_table else None)"

section \<open>Specification of the filter\<close>

text \<open>A record is kept when the requested month is \<open>all\<close> or the name of its month,
  in lower case, and the requested day is \<open>all\<close> or its weekday name in title case.\<close>

definition keep :: "string \<Rightarrow> string \<Rightarrow> row \<Rightarrow> bool" where
  "keep month day r \<longleftrightarrow> (month = ''all'' \<or> py_lower (month_name ! month_col r) = month)
     \<and> (day = ''all'' \<or> day_of_week r = py_title day)"

definition valid_month :: "string \<Rightarrow> bool" where
  "valid_month month \<longleftrightarrow> month = ''all'' \<or> month \<in> set (tl (map py_lower month_name))"

section \<open>Well-formedness\<close>

text \<open>A cell of a column the dataset lacks is empty: column presence is a property of the
  whole dataset.\<close>

definition cells_ok :: "string list \<Rightarrow> cells \<Rightarrow> bool" where
  "cells_ok cols c \<longleftrightarrow>
     (''Start Station'' \<notin> set cols \<longrightarrow> start_station c = None)
   \<and> (''End Station'' \<notin> set cols \<longrightarrow> end_station c = None)
   \<and> (''Trip Duration'' \<notin> set cols \<longrightarrow> trip_duration c = None)
   \<and> (''User Type'' \<notin> set cols \<longrightarrow> user_type c = None)
   \<and> (''Gender'' \<notin> set cols \<longrightarrow> gender c = None)
   \<and> (''Birth Year'' \<notin> set cols \<longrightarrow> birth_year c = None)"

definition wf_table :: "table \<Rightarrow> bool" where
  "wf_table t \<longleftrightarrow> distinct (header t) \<and> (\<forall>r \<in> set (records t). cells_ok (header t) (raw_cells r))"

definition row_ok :: "string list \<Rightarrow> row \<Rightarrow> bool" where
  "row_ok cols r \<longleftrightarrow> valid_ts (start_time r) \<and> month_col r = ts_month (start_time r)
     \<and> day_of_week r = dt_day_name (start_time r) \<and> cells_ok cols (row_cells r)"

definition wf_frame :: "frame \<Rightarrow> bool" where
  "wf_frame df \<longleftrightarrow> distinct (columns df)
     \<and> ''Start Time'' \<in> set (columns df) \<and> ''month'' \<in> set (columns df)
     \<and> ''day_of_week'' \<in> set (columns df) \<and> (\<forall>r \<in> set (rows df). row_ok (columns df) r)"

section \<open>The filter\<close>

lemma month_names_lower:
  "tl (map py_lower month_name) = [''january'', ''february'', ''march'', ''april'', ''may'',
     ''june'', ''july'', ''august'', ''september'', ''october'', ''november'', ''december'']"
  by code_simp

lemma distinct_month_names: "distinct (tl (map py_lower month_name))"
  unfolding month_names_lower by simp

lemma length_month_name [simp]: "length month_name = 13"
  by (simp add: month_name_def)

lemma month_index_Inl_iff:
  "month_index month = Inl e \<longleftrightarrow> e = ValueError \<and> month \<notin> set (tl (map py_lower month_name))"
proof -
  have "month_index month = Inl e \<longleftrightarrow> py_index (tl (map py_lower month_name)) month = Inl e"
    by (cases "py_index (tl (map py_lower month_name)) month") (simp_all add: month_index_def)
  then show ?thesis
    by (simp add: py_index_Inl_iff)
qed

lemma month_index_Inr_iff:
  "month_index month = Inr k \<longleftrightarrow>
     0 < k \<and> k \<le> 12 \<and> tl (map py_lower month_name) ! (k - 1) = month
     \<and> month \<notin> set (take (k - 1) (tl (map py_lower month_name)))"
  by (cases k) (auto simp: month_index_def res_bind_Inr_iff py_index_Inr_iff)

lemma filter_month_day_rows [simp]:
  "rows (filter_month m df) = filter (\<lambda>r. month_col r = m) (rows df)"
  "rows (filter_day d df) = filter (\<lambda>r. day_of_week r = d) (rows df)"
  "columns (filter_month m df) = columns df"
  "columns (filter_day d df) = columns df"
  by (simp_all add: filter_month_def filter_day_def)

lemma apply_filters_cases:
  "apply_filters df month day =
     (if month = ''all'' then Inr (if day = ''all'' then df else filter_day (py_title day) df)
      else res_bind (month_index month) (\<lambda>m.
        Inr (if day = ''all'' then filter_month m df else filter_day (py_title day) (filter_month m df))))"
  by (cases "month_index month") (simp_all add: apply_filters_def)

text \<open>C12: filtering by \<open>all\<close> and \<open>all\<close> returns the loaded dataset unchanged.\<close>

theorem apply_filters_identity: "apply_filters df ''all'' ''all'' = Inr df"
  by (simp add: apply_filters_def)

lemma filter_month_day_commute:
  "filter_day d (filter_month m df) = filter_month m (filter_day d df)"
  by (simp add: filter_month_def filter_day_def conj_commute)

text \<open>C4: the month and day filters compose and commute: filtering by month alone and
  then by day alone, or by day and then by month, gives what filtering by both gives,
  error included.\<close>

theorem apply_filters_compose:
  "res_bind (apply_filters df month ''all'') (\<lambda>df1. apply_filters df1 ''all'' day) = apply_filters df month day
   \<and> res_bind (apply_filters df ''all'' day) (\<lambda>df1. apply_filters df1 month ''all'') = apply_filters df month day"
  by (cases "month_index month")
    (simp_all add: apply_filters_cases filter_month_day_commute)

lemma month_match:
  assumes "month_index month = Inr k" and "1 \<le> j" and "j \<le> 12"
  shows "j = k \<longleftrightarrow> py_lower (month_name ! j) = month"
proof -
  let ?ns = "tl (map py_lower month_name)"
  from assms(1) have k: "0 < k" "k \<le> 12" "?ns ! (k - 1) = month"
    by (simp_all add: month_index_Inr_iff)
  have j: "py_lower (month_name ! j) = ?ns ! (j - 1)"
    using assms(2,3) by (simp add: nth_tl)
  have "?ns ! (j - 1) = ?ns ! (k - 1) \<longleftrightarrow> j - 1 = k - 1"
    using assms(2,3) k(1,2) distinct_month_names by (simp add: nth_eq_iff_index_eq)
  with j k assms(2) show ?thesis
    by auto
qed

lemma valid_month_index:
  assumes "valid_month month" and "month \<noteq> ''all''"
  obtains k where "month_index month = Inr k"
  using assms by (cases "month_index month") (auto simp: valid_month_def month_index_Inl_iff)

lemma row_ok_month: "row_ok cols r \<Longrightarrow> 1 \<le> month_col r \<and> month_col r \<le> 12"
  by (simp add: row_ok_def valid_ts_def)

lemma apply_filters_keep:
  assumes "wf_frame df" and "valid_month month"
  shows "apply_filters df month day = Inr (df\<lparr>rows := filter (keep month day) (rows df)\<rparr>)"
proof (cases "month = ''all''")
  case True
  then show ?thesis
    by (simp add: apply_filters_cases keep_def [abs_def] filter_day_def)
next
  case False
  with assms(2) obtain k where k: "month_index month = Inr k"
    by (rule valid_month_index)
  have "filter (\<lambda>r. month_col r = k) (rows df) = filter (\<lambda>r. py_lower (month_name ! month_col r) = month) (rows df)"
  proof (rule filter_cong)
    fix r
    assume "r \<in> set (rows df)"
    with assms(1) have "row_ok (columns df) r"
      by (simp add: wf_frame_def)
    then have "1 \<le> month_col r \<and> month_col r \<le> 12"
      by (rule row_ok_month)
    then show "(month_col r = k) = (py_lower (month_name ! month_col r) = month)"
      using month_match [OF k] by blast
  qed simp
  with False k show ?thesis
    by (simp add: apply_filters_cases keep_def [abs_def] filter_month_def filter_day_def conj_commute)
qed

lemma apply_filters_Inl_iff:
  "apply_filters df month day = Inl e \<longleftrightarrow> e = ValueError \<and> \<not> valid_month month"
proof (cases "month = ''all''")
  case True
  then show ?thesis
    by (simp add: apply_filters_cases valid_month_def)
next
  case False
  then have "apply_filters df month day = Inl e \<longleftrightarrow> month_index month = Inl e"
    by (cases "month_index month") (simp_all add: apply_filters_cases)
  with False show ?thesis
    by (simp add: month_index_Inl_iff valid_month_def)
qed

text \<open>C13: the filter fails, with \<open>ValueError\<close> from \<open>list.index\<close>, exactly when the
  month is neither \<open>all\<close> nor a lower-case month name.\<close>

theorem apply_filters_error:
  "apply_filters df month day = Inl e \<longleftrightarrow> e = ValueError \<and> \<not> valid_month month"
  by (rule apply_filters_Inl_iff)

text \<open>C1: on a well-formed dataset the filter keeps exactly the records whose month name
  and weekday name match the request, in their original order, and keeps the columns,
  when the month is \<open>all\<close> or a month name; otherwise it raises \<open>ValueError\<close>.\<close>

theorem apply_filters_spec:
  assumes "wf_frame df"
  shows "apply_filters df month day =
    (if valid_month month then Inr (df\<lparr>rows := filter (keep month day) (rows df)\<rparr>)
     else Inl ValueError)"
proof (cases "valid_month month")
  case True
  then show ?thesis using apply_filters_keep [OF assms True] by simp
next
  case False
  then show ?thesis using apply_filters_Inl_iff [of df month day ValueError] by simp
qed

theorem apply_filters_error_witness:
  "apply_filters \<lparr>columns = [], rows = []\<rparr> '''' ''all'' = Inl ValueError \<and> \<not> valid_month ''''"
proof -
  have "\<not> valid_month ''''"
    by (simp add: valid_month_def month_names_lower)
  with apply_filters_error [of "\<lparr>columns = [], rows = []\<rparr>" "''''" "''all''" ValueError]
  show ?thesis
    by simp
qed


section \<open>Loading\<close>

lemma to_datetime_col_eq:
  "to_datetime_col rs =
     (if \<forall>r \<in> set rs. to_datetime (raw_start_time r) \<noteq> None
      then Inr (map (\<lambda>r. (the (to_datetime (raw_start_time r)), raw_cells r)) rs)
      else Inl ParserError)"
  by (induction rs) (auto split: option.split)

lemma set_add_column [simp]: "set (add_column n cols) = insert n (set cols)"
  by (auto simp: add_column_def)

lemma distinct_add_column [simp]: "distinct (add_column n cols) = distinct cols"
  by (simp add: add_column_def)

lemma cells_ok_mono: "set cols \<subseteq> set cols' \<Longrightarrow> cells_ok cols c \<Longrightarrow> cells_ok cols' c"
  by (auto simp: cells_ok_def)

lemma read_frame_eq:
  "read_frame fs city =
     (case map_of CITY_DATA city of
        None \<Rightarrow> Inl KeyError
      | Some fname \<Rightarrow> (case fs fname of
          None \<Rightarrow> Inl FileNotFoundError
        | Some t \<Rightarrow>
            if ''Start Time'' \<notin> set (header t) then Inl KeyError
            else if \<forall>r \<in> set (records t). to_datetime (raw_start_time r) \<noteq> None
            then Inr \<lparr>columns = add_column ''day_of_week'' (add_column ''month'' (header t)),
                     rows = map (\<lambda>r. derive_row (the (to_datetime (raw_start_time r)), raw_cells r))
                              (records t)\<rparr>
            else Inl ParserError))"
  by (auto simp: read_frame_def dict_get_def read_csv_def to_datetime_col_eq comp_def
      split: option.split)

lemma read_frame_wf:
  assumes "\<forall>n t. fs n = Some t \<longrightarrow> wf_table t" and "read_frame fs city = Inr df"
  shows "wf_frame df"
proof -
  obtain fname t where f: "map_of CITY_DATA city = Some fname" and t: "fs fname = Some t"
    and st: "''Start Time'' \<in> set (header t)"
    and ok: "\<forall>r \<in> set (records t). to_datetime (raw_start_time r) \<noteq> None"
    and df: "df = \<lparr>columns = add_column ''day_of_week'' (add_column ''month'' (header t)),
               rows = map (\<lambda>r. derive_row (the (to_datetime (raw_start_time r)), raw_cells r))
                 (records t)\<rparr>"
    using assms(2) by (auto simp: read_frame_eq split: option.splits if_splits)
  have wt: "wf_table t"
    using assms(1) t by blast
  have "row_ok (columns df) r" if "r \<in> set (rows df)" for r
  proof -
    from that df obtain x where x: "x \<in> set (records t)"
      and r: "r = derive_row (the (to_datetime (raw_start_time x)), raw_cells x)"
      by auto
    from ok x obtain ts where ts: "to_datetime (raw_start_time x) = Some ts"
      by auto
    have "cells_ok (header t) (raw_cells x)"
      using wt x by (simp add: wf_table_def)
    then have "cells_ok (columns df) (raw_cells x)"
      by (rule cells_ok_mono [rotated]) (auto simp: df)
    with ts r show ?thesis
      by (simp add: row_ok_def derive_row_def to_datetime_valid)
  qed
  with wt st show ?thesis
    by (auto simp: wf_frame_def wf_table_def df)
qed

lemma apply_filters_wf:
  assumes "wf_frame df" and "apply_filters df month day = Inr df'"
  shows "wf_frame df' \<and> columns df' = columns df \<and> subseq (rows df') (rows df)"
  using assms
  by (cases "month_index month")
    (auto simp: apply_filters_cases wf_frame_def split: if_splits
      intro: subseq_filter_left subseq_order.trans)


text \<open>C6: from well-formed data files, a successful \<open>load_data\<close> yields a well-formed
  dataset: distinct columns including the derived \<open>month\<close> and \<open>day_of_week\<close>, valid
  timestamps, derived columns that agree with the start time, and empty cells exactly
  where a column is absent.\<close>

theorem load_data_wf:
  assumes "\<forall>n t. fs n = Some t \<longrightarrow> wf_table t" and "load_data fs city month day = Inr df"
  shows "wf_frame df"
proof -
  from assms(2) obtain df0 where r: "read_frame fs city = Inr df0"
    and f: "apply_filters df0 month day = Inr df"
    by (cases "read_frame fs city") (simp_all add: load_data_def)
  from assms(1) r have "wf_frame df0"
    by (rule read_frame_wf)
  with f show ?thesis
    using apply_filters_wf by blast
qed

lemma sample_files_wf: "\<forall>n t. sample_files n = Some t \<longrightarrow> wf_table t"
proof -
  have "wf_table sample_table"
    by code_simp
  then show ?thesis
    by (simp add: sample_files_def)
qed

theorem load_data_wf_witness:
  "wf_table sample_table
   \<and> (case load_data sample_files ''washington'' ''january'' ''all'' of
        Inr df \<Rightarrow> wf_frame df | Inl e \<Rightarrow> False)"
proof -
  have "\<not> isl (load_data sample_files ''washington'' ''january'' ''all'')"
    by code_simp
  then obtain df where df: "load_data sample_files ''washington'' ''january'' ''all'' = Inr df"
    by (cases "load_data sample_files ''washington'' ''january'' ''all''") auto
  have "wf_table sample_table"
    by code_simp
  then show ?thesis
    using load_data_wf [OF sample_files_wf df] df by simp
qed

text \<open>C14: loading is fail-fast: one start time that does not parse rejects the whole
  dataset with a parser error, whatever the filter.\<close>

theorem load_data_fail_fast:
  assumes "map_of CITY_DATA city = Some fname" and "fs fname = Some t"
    and "''Start Time'' \<in> set (header t)" and "r \<in> set (records t)"
    and "parse_timestamp (raw_start_time r) = None"
  shows "load_data fs city month day = Inl ParserError"
  using assms to_datetime_None [OF assms(5)] by (auto simp: load_data_def read_frame_eq)

theorem load_data_fail_fast_witness:
  "load_data (sample_files(''washington.csv'' \<mapsto>
       sample_table\<lparr>records := [\<lparr>raw_start_time = ''2017-02-30 10:00:00'',
                                 raw_cells = sample_cells ''A'' ''B'' 1 ''Customer''\<rparr>]\<rparr>))
     ''washington'' ''all'' ''all'' = Inl ParserError"
proof -
  define r where "r = \<lparr>raw_start_time = ''2017-02-30 10:00:00'',
    raw_cells = sample_cells ''A'' ''B'' 1 ''Customer''\<rparr>"
  define t where "t = sample_table\<lparr>records := [r]\<rparr>"
  have h1: "map_of CITY_DATA ''washington'' = Some ''washington.csv''"
    by (simp add: CITY_DATA_def)
  have h2: "(sample_files(''washington.csv'' \<mapsto> t)) ''washington.csv'' = Some t"
    by simp
  have h3: "''Start Time'' \<in> set (header t)"
    by (simp add: t_def sample_table_def)
  have h4: "r \<in> set (records t)"
    by (simp add: t_def)
  have h5: "parse_timestamp (raw_start_time r) = None"
    unfolding r_def by code_simp
  from load_data_fail_fast [of "''washington''" "''washington.csv''" "sample_files(''washington.csv'' \<mapsto> t)",
      OF h1 h2 h3 h4 h5]
  show ?thesis
    by (simp add: t_def r_def)
qed

text \<open>C5: when the city is known, its file exists with a \<open>Start Time\<close> column, every
  start time parses and the month is valid, \<open>load_data\<close> returns the file's columns
  with \<open>month\<close> and \<open>day_of_week\<close> added and, in file order, the derived rows that
  the filter keeps.\<close>

theorem load_data_spec:
  assumes "map_of CITY_DATA city = Some fname" and "fs fname = Some t" and "wf_table t"
    and "''Start Time'' \<in> set (header t)"
    and "\<forall>r \<in> set (records t). to_datetime (raw_start_time r) \<noteq> None"
    and "valid_month month"
  shows "load_data fs city month day =
    Inr \<lparr>columns = add_column ''day_of_week'' (add_column ''month'' (header t)),
         rows = filter (keep month day)
           (map (\<lambda>r. derive_row (the (to_datetime (raw_start_time r)), raw_cells r)) (records t))\<rparr>"
proof -
  let ?df = "\<lparr>columns = add_column ''day_of_week'' (add_column ''month'' (header t)),
         rows = map (\<lambda>r. derive_row (the (to_datetime (raw_start_time r)), raw_cells r)) (records t)\<rparr>"
  have r: "read_frame fs city = Inr ?df"
    using assms(1,2,4,5) by (simp add: read_frame_eq)
  have "read_frame (\<lambda>n. if n = fname then Some t else None) city = Inr ?df"
    using assms(1,4,5) by (simp add: read_frame_eq)
  then have "wf_frame ?df"
    using assms(3) by (intro read_frame_wf [where fs = "\<lambda>n. if n = fname then Some t else None"]) auto
  then show ?thesis
    using r assms(6) by (simp add: load_data_def apply_filters_keep)
qed


lemma sample_frame_loaded:
  obtains df where "read_frame sample_files ''washington'' = Inr df" and "wf_frame df"
proof -
  have "\<not> isl (read_frame sample_files ''washington'')"
    by code_simp
  then obtain df where df: "read_frame sample_files ''washington'' = Inr df"
    by (cases "read_frame sample_files ''washington''") auto
  with sample_files_wf have "wf_frame df"
    by (rule read_frame_wf)
  with df show ?thesis
    by (rule that)
qed

theorem apply_filters_spec_witness:
  "case read_frame sample_files ''washington'' of
     Inr df \<Rightarrow> wf_frame df \<and> valid_month ''january''
       \<and> apply_filters df ''january'' ''monday'' = Inr (df\<lparr>rows := filter (keep ''january'' ''monday'') (rows df)\<rparr>)
   | Inl e \<Rightarrow> False"
proof -
  obtain df where df: "read_frame sample_files ''washington'' = Inr df" and wf: "wf_frame df"
    by (rule sample_frame_loaded)
  have v: "valid_month ''january''"
    by (simp add: valid_month_def month_names_lower)
  show ?thesis
    using apply_filters_spec [OF wf, of "''january''" "''monday''"] df wf v by simp
qed

theorem load_data_spec_witness:
  "load_data sample_files ''washington'' ''june'' ''friday'' =
    Inr \<lparr>columns = add_column ''day_of_week'' (add_column ''month'' (header sample_table)),
         rows = filter (keep ''june'' ''friday'')
           (map (\<lambda>r. derive_row (the (to_datetime (raw_start_time r)), raw_cells r))
             (records sample_table))\<rparr>"
proof -
  have h1: "map_of CITY_DATA ''washington'' = Some ''washington.csv''"
    by (simp add: CITY_DATA_def)
  have h2: "sample_files ''washington.csv'' = Some sample_table"
    by (simp add: sample_files_def)
  have h3: "wf_table sample_table"
    by code_simp
  have h4: "''Start Time'' \<in> set (header sample_table)"
    by (simp add: sample_table_def)
  have h5: "\<forall>r \<in> set (records sample_table). to_datetime (raw_start_time r) \<noteq> None"
    by code_simp
  have h6: "valid_month ''june''"
    by (simp add: valid_month_def month_names_lower)
  from load_data_spec [of "''washington''" "''washington.csv''" sample_files, OF h1 h2 h3 h4 h5 h6]
  show ?thesis .
qed

end
