(* ===== verification/TimeFormat.thy ===== *)
theory TimeFormat
  imports Prelude
begin

text \<open>
  The time decomposition of \<open>src/bikeshare_2.py\<close>: \<open>format_time\<close> (lines 167--179)
  splits a number of seconds into days, hours, minutes and seconds by three successive
  \<open>divmod\<close>s and rounds the seconds. Its argument is a pandas sum of the \<open>Trip
  Duration\<close> column (an integer for Chicago and New York, a float for Washington) or an
  already rounded mean, so it is modelled over \<open>rat\<close>. The lemmas show that on
  integers it is exact integer division with the spec's bounds, and that on fractional
  input the rounding of the seconds can yield 60 seconds.
\<close>

definition format_time :: "rat \<Rightarrow> int \<times> int \<times> int \<times> int" where
  "format_time total_seconds =
     (let (days, remaining_time) = py_divmod total_seconds 86400;
          (hours, remaining_time) = py_divmod remaining_time 3600;
          (minutes, seconds) = py_divmod remaining_time 60
      in (days, hours, minutes, py_round seconds))"

section \<open>Integer input\<close>

lemma format_time_of_int_eq:
  "format_time (of_int n) = (n div 86400, n mod 86400 div 3600, n mod 3600 div 60, n mod 60)"
proof -
  have d1: "py_divmod (of_int n) 86400 = (n div 86400, of_int (n mod 86400))"
    using py_divmod_of_int [of n 86400] by simp
  have "n mod 86400 mod 3600 = n mod 3600"
    by (rule mod_mod_cancel) simp
  then have d2: "py_divmod (of_int (n mod 86400)) 3600
      = (n mod 86400 div 3600, of_int (n mod 3600))"
    using py_divmod_of_int [of "n mod 86400" 3600] by simp
  have "n mod 3600 mod 60 = n mod 60"
    by (rule mod_mod_cancel) simp
  then have d3: "py_divmod (of_int (n mod 3600)) 60 = (n mod 3600 div 60, of_int (n mod 60))"
    using py_divmod_of_int [of "n mod 3600" 60] by simp
  show ?thesis
    by (simp add: format_time_def d1 d2 d3)
qed

lemma time_breakdown:
  fixes n :: int
  assumes parts: "d = n div 86400" "h = n mod 86400 div 3600" "m = n mod 3600 div 60" "s = n mod 60"
  shows "d * 86400 + h * 3600 + m * 60 + s = n \<and> 0 \<le> h \<and> h < 24 \<and> 0 \<le> m \<and> m < 60
    \<and> 0 \<le> s \<and> s < 60 \<and> (0 \<le> d \<longleftrightarrow> 0 \<le> n)"
proof -
  have "n mod 86400 = h * 3600 + n mod 86400 mod 3600"
    using parts(2) by simp
  also have "n mod 86400 mod 3600 = n mod 3600"
    by (rule mod_mod_cancel) simp
  finally have e2: "n mod 86400 = h * 3600 + n mod 3600" .
  have e3: "n mod 3600 = m * 60 + s"
    using parts(3,4) div_mult_mod_eq [of "n mod 3600" 60] mod_mod_cancel [of 60 3600 n]
    by simp
  have e1: "n = d * 86400 + n mod 86400"
    using parts(1) by simp
  have sb: "0 \<le> s \<and> s < 60"
    using parts(4) by simp
  have "0 \<le> n mod 86400" "n mod 86400 < 86400" "0 \<le> n mod 3600" "n mod 3600 < 3600"
    by simp_all
  with e2 e3 sb have hm: "0 \<le> h \<and> h < 24 \<and> 0 \<le> m \<and> m < 60"
    by linarith
  have db: "0 \<le> d \<longleftrightarrow> 0 \<le> n"
    using parts(1) by (simp add: pos_imp_zdiv_nonneg_iff)
  from e1 e2 e3 have "d * 86400 + h * 3600 + m * 60 + s = n"
    by linarith
  with hm sb db show ?thesis
    by blast
qed

text \<open>C3: on an integer number of seconds, the four parts reconstitute the input, hours,
  minutes and seconds lie in their ranges, and days are non-negative exactly when the input
  is.\<close>

theorem format_time_int_exact:
  assumes "format_time (of_int n) = (d, h, m, s)"
  shows "d * 86400 + h * 3600 + m * 60 + s = n \<and> 0 \<le> h \<and> h < 24 \<and> 0 \<le> m \<and> m < 60
    \<and> 0 \<le> s \<and> s < 60 \<and> (0 \<le> d \<longleftrightarrow> 0 \<le> n)"
proof -
  from assms have "d = n div 86400" "h = n mod 86400 div 3600" "m = n mod 3600 div 60" "s = n mod 60"
    by (simp_all add: format_time_of_int_eq)
  then show ?thesis
    by (rule time_breakdown)
qed

section \<open>Fractional input\<close>

lemma format_time_parts:
  assumes "format_time t = (d, h, m, s)"
  obtains r1 r2 r3 where "py_divmod t 86400 = (d, r1)" "py_divmod r1 3600 = (h, r2)"
    "py_divmod r2 60 = (m, r3)" "s = py_round r3"
  using assms
  by (auto simp: format_time_def split: prod.splits)

theorem format_time_int_exact_witness:
  "format_time (of_int 90061) = (1, 1, 1, 1) \<and> (1::int) * 86400 + 1 * 3600 + 1 * 60 + 1 = 90061"
proof -
  have eq: "format_time (of_int 90061) = (1, 1, 1, 1)"
    using format_time_of_int_eq [of 90061] by simp
  have "(1::int) * 86400 + 1 * 3600 + 1 * 60 + 1 = 90061 \<and> 0 \<le> (1::int)"
    using format_time_int_exact [OF eq] by simp
  with eq show ?thesis
    by simp
qed

text \<open>C22: on any (fractional) number of seconds, hours and minutes lie in their ranges,
  the seconds lie in [0, 60] and the four parts reconstitute the input up to the rounding
  of the seconds, at most half a second.\<close>

theorem format_time_rat_bounds:
  assumes "format_time t = (d, h, m, s)"
  shows "\<bar>of_int (d * 86400 + h * 3600 + m * 60 + s) - t\<bar> \<le> 1/2 \<and> 0 \<le> h \<and> h < 24
    \<and> 0 \<le> m \<and> m < 60 \<and> 0 \<le> s \<and> s \<le> 60"
proof -
  obtain r1 r2 r3 where p1: "py_divmod t 86400 = (d, r1)" and p2: "py_divmod r1 3600 = (h, r2)"
    and p3: "py_divmod r2 60 = (m, r3)" and ps: "s = py_round r3"
    using assms by (rule format_time_parts)
  have e1: "t = of_int d * 86400 + r1" "0 \<le> r1" "r1 < 86400"
    using py_divmod_eq [OF p1] by simp_all
  have e2: "r1 = of_int h * 3600 + r2" "0 \<le> r2" "r2 < 3600"
    using py_divmod_eq [OF p2] by simp_all
  have e3: "r2 = of_int m * 60 + r3" "0 \<le> r3" "r3 < 60"
    using py_divmod_eq [OF p3] by simp_all
  have es: "\<bar>of_int s - r3\<bar> \<le> 1/2"
    using py_round_near [of r3] ps by simp
  have "(of_int h :: rat) < 24" "(-1 :: rat) < of_int h"
    using e2 e1(2,3) by linarith+
  then have h: "0 \<le> h \<and> h < 24"
    by linarith
  have "(of_int m :: rat) < 60" "(-1 :: rat) < of_int m"
    using e3 e2(2,3) by linarith+
  then have m: "0 \<le> m \<and> m < 60"
    by linarith
  have "r3 - 1/2 \<le> of_int s" "of_int s \<le> r3 + 1/2"
    using es abs_diff_le_iff by blast+
  then have "(of_int s :: rat) < 61" "(-1 :: rat) < of_int s"
    using e3(2,3) by linarith+
  then have s: "0 \<le> s \<and> s \<le> 60"
    by linarith
  have "\<bar>of_int (d * 86400 + h * 3600 + m * 60 + s) - t\<bar> = \<bar>of_int s - r3\<bar>"
    using e1(1) e2(1) e3(1) by (simp add: algebra_simps)
  with es h m s show ?thesis
    by simp
qed

theorem format_time_rat_bounds_witness:
  "format_time (1196 / 10) = (0, 0, 1, 60) \<and> \<bar>of_int ((0::int) * 86400 + 0 * 3600 + 1 * 60 + 60) - (1196 / 10 :: rat)\<bar> \<le> 1/2"
proof -
  have eq: "format_time (1196 / 10) = (0, 0, 1, 60)"
    by code_simp
  show ?thesis
    using format_time_rat_bounds [OF eq] eq by simp
qed



lemma py_round_sixty:
  assumes "0 \<le> r" and "r < 60"
  shows "py_round r = 60 \<longleftrightarrow> 119 / 2 \<le> r"
proof -
  define f where "f = \<lfloor>r\<rfloor>"
  have lo: "of_int f \<le> r" and hi: "r < of_int f + 1"
    unfolding f_def by linarith+
  then have f: "0 \<le> f" "f \<le> 59"
    using assms by linarith+
  have "py_round r = (if r - of_int f < 1/2 then f else if 1/2 < r - of_int f then f + 1
      else if even f then f else f + 1)"
    by (simp add: py_round_def Let_def f_def)
  moreover have "even f \<Longrightarrow> r - of_int f = 1/2 \<Longrightarrow> f \<noteq> 59"
    by auto
  ultimately show ?thesis
    using lo hi f by (auto split: if_splits)
qed

text \<open>C23: the rounding of the seconds carries to a full minute that is not propagated: the
  seconds printed are 60 exactly when the input's remainder modulo 60 is at least 59.5
  (Python's \<open>round\<close> sends 59.5 to the even 60), outside the range \<open>[0, 60)\<close> the spec
  gives the seconds of a breakdown.\<close>

theorem format_time_sixty_iff:
  assumes "format_time t = (d, h, m, s)"
  shows "s = 60 \<longleftrightarrow> 119 / 2 \<le> t - 60 * of_int \<lfloor>t / 60\<rfloor>"
proof -
  obtain r1 r2 r3 where p1: "py_divmod t 86400 = (d, r1)" and p2: "py_divmod r1 3600 = (h, r2)"
    and p3: "py_divmod r2 60 = (m, r3)" and ps: "s = py_round r3"
    using assms by (rule format_time_parts)
  have e: "t = of_int d * 86400 + of_int h * 3600 + of_int m * 60 + r3" "0 \<le> r3" "r3 < 60"
    using py_divmod_eq [OF p1] py_divmod_eq [OF p2] py_divmod_eq [OF p3] by simp_all
  have "t / 60 = of_int (d * 1440 + h * 60 + m) + r3 / 60"
    using e(1) by (simp add: field_simps)
  then have "\<lfloor>t / 60\<rfloor> = d * 1440 + h * 60 + m"
    using e(2,3) by (intro floor_unique) simp_all
  then have "t - 60 * of_int \<lfloor>t / 60\<rfloor> = r3"
    using e(1) by (simp add: algebra_simps)
  then show ?thesis
    using py_round_sixty [OF e(2,3)] ps by simp
qed

theorem format_time_sixty_iff_witness:
  "format_time (1196 / 10) = (0, 0, 1, 60) \<and> 119 / 2 \<le> (1196 / 10 :: rat) - 60 * of_int \<lfloor>(1196 / 10 :: rat) / 60\<rfloor>"
proof -
  have eq: "format_time (1196 / 10) = (0, 0, 1, 60)"
    by code_simp
  show ?thesis
    using format_time_sixty_iff [OF eq] eq by simp
qed

end
