(* ===== verification/Stats.thy ===== *)
theory Stats
  imports Frame TimeFormat
begin

text \<open>
  The four statistics groups of \<open>src/bikeshare_2.py\<close>: \<open>time_stats\<close> (lines 97--116),
  \<open>station_stats\<close> (118--145), \<open>trip_duration_stats\<close> (147--165) and
  \<open>user_stats\<close> (181--212). Each prints its values one line after another and may raise
  on the way, so each is a computation in \<open>(report, 'a) wres\<close>: the report lines printed
  (one constructor of \<open>report\<close> per printed value or "no data" notice; headings, timing
  and separators are display only) and the outcome. \<open>time_stats\<close> also adds the
  \<open>Start Hour\<close> column to the dataset it is given, which \<open>main\<close> keeps, so it returns
  the updated dataset.
\<close>

datatype report =
    PopularMonth nat
  | PopularDay string
  | PopularHour nat
  | PopularStartStation string
  | NoStartStation
  | PopularEndStation string
  | NoEndStation
  | PopularTrip string
  | TotalTravelTime "int \<times> int \<times> int \<times> int"
  | MeanTravelTime "int \<times> int \<times> int \<times> int"
  | NoTripDuration
  | UserTypeCounts "(string \<times> nat) list"
  | NoUserType
  | GenderCounts "(string \<times> nat) list"
  | NoGender
  | EarliestBirthYear "int option"
  | RecentBirthYear "int option"
  | CommonBirthYear int
  | NoBirthYear

section \<open>Columns\<close>

definition start_hours :: "frame \<Rightarrow> nat list" where
  "start_hours df = map (\<lambda>r. ts_hour (start_time r)) (rows df)"

definition starts :: "frame \<Rightarrow> string series" where
  "starts df = map (\<lambda>r. start_station (row_cells r)) (rows df)"

definition ends :: "frame \<Rightarrow> string series" where
  "ends df = map (\<lambda>r. end_station (row_cells r)) (rows df)"

definition durations :: "frame \<Rightarrow> rat series" where
  "durations df = map (\<lambda>r. trip_duration (row_cells r)) (rows df)"

definition user_types :: "frame \<Rightarrow> string series" where
  "user_types df = map (\<lambda>r. user_type (row_cells r)) (rows df)"

definition genders :: "frame \<Rightarrow> string series" where
  "genders df = map (\<lambda>r. gender (row_cells r)) (rows df)"

definition birth_years :: "frame \<Rightarrow> int series" where
  "birth_years df = map (\<lambda>r. birth_year (row_cells r)) (rows df)"

text \<open>Line 141: \<open>Start Station + ' / ' + End Station\<close>, NaN when either side is NaN.\<close>

definition station_pair :: "string option \<Rightarrow> string option \<Rightarrow> string option" where
  "station_pair a b = (case (a, b) of (Some x, Some y) \<Rightarrow> Some (x @ '' / '' @ y) | _ \<Rightarrow> None)"

section \<open>The statistics groups\<close>

definition time_stats :: "frame \<Rightarrow> (report, frame) wres" where
  "time_stats df =
     wbind (lift (mode_first (map (\<lambda>r. Some (month_col r)) (rows df)))) (\<lambda>m.
     wbind (emit (PopularMonth m)) (\<lambda>_.
     wbind (lift (mode_first (map (\<lambda>r. Some (day_of_week r)) (rows df)))) (\<lambda>d.
     wbind (emit (PopularDay d)) (\<lambda>_.
     (let df' = df\<lparr>columns := add_column ''Start Hour'' (columns df)\<rparr> in
      wbind (lift (mode_first (map Some (start_hours df')))) (\<lambda>h.
      wbind (emit (PopularHour h)) (\<lambda>_. wret df')))))))"

definition station_stats :: "frame \<Rightarrow> (report, unit) wres" where
  "station_stats df =
     (let has_start = ''Start Station'' \<in> set (columns df);
          has_end = ''End Station'' \<in> set (columns df)
      in wbind (if has_start then wbind (lift (mode_first (starts df))) (\<lambda>s. emit (PopularStartStation s))
                else emit NoStartStation) (\<lambda>_.
         wbind (if has_end then wbind (lift (mode_first (ends df))) (\<lambda>e. emit (PopularEndStation e))
                else emit NoEndStation) (\<lambda>_.
         if has_start \<and> has_end
         then wbind (lift (mode_first (map2 station_pair (starts df) (ends df)))) (\<lambda>t. emit (PopularTrip t))
         else wret ())))"

text \<open>Line 159: \<open>int(round(mean))\<close> raises \<open>ValueError\<close> when the mean is NaN.\<close>

definition trip_duration_stats :: "frame \<Rightarrow> (report, unit) wres" where
  "trip_duration_stats df =
     (if ''Trip Duration'' \<in> set (columns df)
      then wbind (emit (TotalTravelTime (format_time (series_sum (durations df))))) (\<lambda>_.
           case series_mean (durations df) of
             None \<Rightarrow> wraise ValueError
           | Some mu \<Rightarrow> emit (MeanTravelTime (format_time (of_int (py_round mu)))))
      else emit NoTripDuration)"

definition user_stats :: "frame \<Rightarrow> (report, unit) wres" where
  "user_stats df =
     wbind (if ''User Type'' \<in> set (columns df) then emit (UserTypeCounts (value_counts (user_types df)))
            else emit NoUserType) (\<lambda>_.
     wbind (if ''Gender'' \<in> set (columns df) then emit (GenderCounts (value_counts (genders df)))
            else emit NoGender) (\<lambda>_.
     if ''Birth Year'' \<in> set (columns df)
     then wbind (emit (EarliestBirthYear (series_min (birth_years df)))) (\<lambda>_.
          wbind (emit (RecentBirthYear (series_max (birth_years df)))) (\<lambda>_.
          wbind (lift (mode_first (birth_years df))) (\<lambda>b. emit (CommonBirthYear b))))
     else emit NoBirthYear))"

section \<open>A rider sample\<close>

text \<open>Three trips with user types and birth years but no \<open>Gender\<close> column (one birth
  year missing), the spec's schema-tolerance example.\<close>

definition rider_cells :: "string \<Rightarrow> int option \<Rightarrow> cells" where
  "rider_cells u b = \<lparr>start_station = None, end_station = None, trip_duration = None,
     user_type = Some u, gender = None, birth_year = b\<rparr>"

definition rider_frame :: frame where
  "rider_frame =
     \<lparr>columns = [''Start Time'', ''User Type'', ''Birth Year'', ''month'', ''day_of_week''],
      rows = map derive_row
        [(\<lparr>ts_year = 2017, ts_month = 3, ts_day = 3, ts_hour = 3, ts_minute = 0, ts_second = 0\<rparr>,
          rider_cells ''Subscriber'' (Some 1989)),
         (\<lparr>ts_year = 2017, ts_month = 3, ts_day = 4, ts_hour = 5, ts_minute = 0, ts_second = 0\<rparr>,
          rider_cells ''Customer'' (Some 1992)),
         (\<lparr>ts_year = 2017, ts_month = 3, ts_day = 5, ts_hour = 3, ts_minute = 0, ts_second = 0\<rparr>,
          rider_cells ''Subscriber'' None),
         (\<lparr>ts_year = 2017, ts_month = 3, ts_day = 6, ts_hour = 5, ts_minute = 0, ts_second = 0\<rparr>,
          rider_cells ''Subscriber'' (Some 1989))]\<rparr>"

section \<open>Specifications\<close>

text \<open>The smallest of the most frequent values of a non-empty list.\<close>

definition least_mode :: "'a::linorder list \<Rightarrow> 'a" where
  "least_mode xs = Min (set (filter (is_mode xs) xs))"


section \<open>Shared lemmas\<close>

lemma mode_first_least_mode:
  assumes "dropna s \<noteq> []"
  shows "mode_first s = Inr (least_mode (dropna s))"
proof -
  obtain m where m: "mode_first s = Inr m"
    using assms mode_first_Inl_iff [of s] by (cases "mode_first s") auto
  then have mode: "is_mode (dropna s) m" and least: "\<forall>v. is_mode (dropna s) v \<longrightarrow> m \<le> v"
    by (simp_all add: mode_first_Inr_iff)
  have "least_mode (dropna s) = m"
    unfolding least_mode_def
    using mode least by (intro Min_eqI) (auto simp: is_mode_def simp del: set_dropna)
  with m show ?thesis
    by simp
qed

lemma mode_first_Some_list:
  "xs \<noteq> [] \<Longrightarrow> mode_first (map Some xs) = Inr (least_mode xs)"
  using mode_first_least_mode [of "map Some xs"] by simp

lemma mode_first_Nil [simp]: "mode_first [] = Inl KeyError"
  by (simp add: mode_first_Inl_iff)

lemma lift_mode_first_cases:
  "lift (mode_first s) = (if dropna s = [] then wraise KeyError else wret (least_mode (dropna s)))"
  using mode_first_least_mode [of s] mode_first_Inl_iff [of s KeyError]
  by (auto simp: lift_def wraise_def wret_def)

lemma start_hours_update [simp]: "start_hours (df\<lparr>columns := c\<rparr>) = start_hours df"
  by (simp add: start_hours_def)

lemmas stat_simps = lift_mode_first_cases wbind_unit_simps wbind_simps


section \<open>Time of travel\<close>

text \<open>C7: on a non-empty dataset \<open>time_stats\<close> prints the smallest of the most frequent
  months, the smallest (in string order) of the most frequent weekday names and the
  smallest of the most frequent start hours, and adds the \<open>Start Hour\<close> column.\<close>

theorem time_stats_spec:
  assumes "rows df \<noteq> []"
  shows "time_stats df =
    ([PopularMonth (least_mode (map month_col (rows df))),
      PopularDay (least_mode (map day_of_week (rows df))),
      PopularHour (least_mode (start_hours df))],
     Inr (df\<lparr>columns := add_column ''Start Hour'' (columns df)\<rparr>))"
proof -
  have m: "mode_first (map (\<lambda>r. Some (month_col r)) (rows df)) = Inr (least_mode (map month_col (rows df)))"
    using mode_first_Some_list [of "map month_col (rows df)"] assms by (simp add: comp_def)
  have d: "mode_first (map (\<lambda>r. Some (day_of_week r)) (rows df)) = Inr (least_mode (map day_of_week (rows df)))"
    using mode_first_Some_list [of "map day_of_week (rows df)"] assms by (simp add: comp_def)
  have h: "mode_first (map Some (start_hours df)) = Inr (least_mode (start_hours df))"
    using mode_first_Some_list [of "start_hours df"] assms by (simp add: start_hours_def)
  show ?thesis
    unfolding time_stats_def m d Let_def
    by (simp add: h lift_def wret_def)
qed

text \<open>C16: on an empty dataset (a filter that matches no record) \<open>time_stats\<close> raises
  \<open>KeyError\<close> before printing anything, where the spec asks for a "no data" report.\<close>

theorem time_stats_empty:
  assumes "rows df = []"
  shows "time_stats df = ([], Inl KeyError)"
  using assms by (simp add: time_stats_def lift_def)


section \<open>Stations\<close>

text \<open>C8: each station statistic is reported independently: a present column with data
  gets its most frequent value (smallest on ties), an absent one its "no data" notice,
  and the most frequent trip is reported exactly when both columns are present.\<close>

theorem station_stats_spec:
  assumes "''Start Station'' \<in> set (columns df) \<longrightarrow> dropna (starts df) \<noteq> []"
    and "''End Station'' \<in> set (columns df) \<longrightarrow> dropna (ends df) \<noteq> []"
    and "''Start Station'' \<in> set (columns df) \<and> ''End Station'' \<in> set (columns df)
         \<longrightarrow> dropna (map2 station_pair (starts df) (ends df)) \<noteq> []"
  shows "station_stats df =
    ((if ''Start Station'' \<in> set (columns df)
      then [PopularStartStation (least_mode (dropna (starts df)))] else [NoStartStation])
     @ (if ''End Station'' \<in> set (columns df)
        then [PopularEndStation (least_mode (dropna (ends df)))] else [NoEndStation])
     @ (if ''Start Station'' \<in> set (columns df) \<and> ''End Station'' \<in> set (columns df)
        then [PopularTrip (least_mode (dropna (map2 station_pair (starts df) (ends df))))] else []),
     Inr ())"
  using assms by (auto simp: station_stats_def Let_def lift_mode_first_cases wret_def emit_def)

text \<open>C21: \<open>station_stats\<close> raises (\<open>KeyError\<close>) exactly when a present station column
  has no value, or both are present and no record has both a start and an end station.\<close>

theorem station_stats_error:
  "snd (station_stats df) = Inl e \<longleftrightarrow> e = KeyError \<and>
     ((''Start Station'' \<in> set (columns df) \<and> dropna (starts df) = [])
      \<or> (''End Station'' \<in> set (columns df) \<and> dropna (ends df) = [])
      \<or> (''Start Station'' \<in> set (columns df) \<and> ''End Station'' \<in> set (columns df)
         \<and> dropna (map2 station_pair (starts df) (ends df)) = []))"
  by (auto simp: station_stats_def Let_def lift_mode_first_cases wret_def wraise_def emit_def)

text \<open>C31: the combined trip label determines the two stations when the start station's
  name contains no \<open>/\<close>: under that condition, counting labels counts trips.\<close>

theorem station_pair_inj:
  assumes "station_pair (Some a) (Some b) = station_pair (Some a') (Some b')"
    and "CHR ''/'' \<notin> set a" and "CHR ''/'' \<notin> set a'"
  shows "a = a' \<and> b = b'"
proof -
  have eq: "a @ '' / '' @ b = a' @ '' / '' @ b'"
    using assms(1) by (simp add: station_pair_def)
  have tw: "takeWhile (\<lambda>c. c \<noteq> CHR ''/'') (x @ '' / '' @ y) = x @ '' ''"
    if "CHR ''/'' \<notin> set x" for x y
  proof -
    have "takeWhile (\<lambda>c. c \<noteq> CHR ''/'') (x @ '' / '' @ y) = x @ takeWhile (\<lambda>c. c \<noteq> CHR ''/'') ('' / '' @ y)"
      by (rule takeWhile_append2) (use that in auto)
    then show ?thesis
      by simp
  qed
  have "a @ '' '' = a' @ '' ''"
    using tw [OF assms(2), of b] tw [OF assms(3), of b'] eq by simp
  then have "a = a'"
    by simp
  with eq show ?thesis
    by simp
qed

theorem station_pair_inj_witness:
  "station_pair (Some ''Canal St'') (Some ''Clark St'') = station_pair (Some ''Canal St'') (Some ''Clark St'')
   \<and> CHR ''/'' \<notin> set ''Canal St'' \<and> ''Canal St'' = ''Canal St'' \<and> ''Clark St'' = ''Clark St''"
proof -
  have h: "CHR ''/'' \<notin> set ''Canal St''"
    by simp
  from station_pair_inj [OF refl h h] show ?thesis
    using h by simp
qed

section \<open>Trip duration\<close>

lemma series_mean_None_iff: "series_mean s = None \<longleftrightarrow> dropna s = []"
  by (simp add: series_mean_def Let_def)

text \<open>C19: \<open>trip_duration_stats\<close> raises (\<open>ValueError\<close>, from rounding a NaN mean)
  exactly when the duration column is present and holds no value, after printing a total
  of zero; the spec asks for a "no data" report instead.\<close>

theorem trip_duration_stats_error:
  "snd (trip_duration_stats df) = Inl e \<longleftrightarrow>
     e = ValueError \<and> ''Trip Duration'' \<in> set (columns df) \<and> dropna (durations df) = []"
  by (auto simp: trip_duration_stats_def series_mean_def Let_def wraise_def emit_def)

lemma trip_duration_stats_empty_output:
  assumes "''Trip Duration'' \<in> set (columns df)" and "dropna (durations df) = []"
  shows "trip_duration_stats df = ([TotalTravelTime (0, 0, 0, 0)], Inl ValueError)"
proof -
  have "format_time 0 = (0, 0, 0, 0)"
    by code_simp
  with assms show ?thesis
    by (simp add: trip_duration_stats_def series_mean_def series_sum_def wraise_def)
qed

lemma trip_duration_stats_eq:
  assumes "''Trip Duration'' \<in> set (columns df)" and "dropna (durations df) \<noteq> []"
  shows "trip_duration_stats df =
    ([TotalTravelTime (format_time (sum_list (dropna (durations df)))),
      MeanTravelTime (format_time (of_int (py_round
        (sum_list (dropna (durations df)) / of_nat (length (dropna (durations df)))))))],
     Inr ())"
  using assms by (simp add: trip_duration_stats_def series_mean_def series_sum_def emit_def Let_def)

section \<open>Users\<close>

text \<open>C9: each user statistic is reported independently of the others: user-type and
  gender counts when the column is present and a "no data" notice otherwise, and the
  earliest, most recent and most common birth year when that column is present and has a
  value.\<close>

theorem user_stats_spec:
  assumes "''Birth Year'' \<in> set (columns df) \<longrightarrow> dropna (birth_years df) \<noteq> []"
  shows "user_stats df =
    ((if ''User Type'' \<in> set (columns df) then [UserTypeCounts (value_counts (user_types df))]
      else [NoUserType])
     @ (if ''Gender'' \<in> set (columns df) then [GenderCounts (value_counts (genders df))]
        else [NoGender])
     @ (if ''Birth Year'' \<in> set (columns df)
        then [EarliestBirthYear (Some (Min (set (dropna (birth_years df))))),
              RecentBirthYear (Some (Max (set (dropna (birth_years df))))),
              CommonBirthYear (least_mode (dropna (birth_years df)))]
        else [NoBirthYear]),
     Inr ())"
  using assms
  by (auto simp: user_stats_def lift_mode_first_cases series_min_eq series_max_eq wret_def
      emit_def simp del: set_dropna)

text \<open>C20: \<open>user_stats\<close> raises (\<open>KeyError\<close>, from the birth-year mode) exactly when
  the birth-year column is present and holds no value.\<close>

theorem user_stats_error:
  "snd (user_stats df) = Inl e \<longleftrightarrow>
     e = KeyError \<and> ''Birth Year'' \<in> set (columns df) \<and> dropna (birth_years df) = []"
  by (auto simp: user_stats_def lift_mode_first_cases wret_def wraise_def emit_def)


section \<open>Witnesses\<close>

theorem time_stats_spec_witness:
  "rows rider_frame \<noteq> [] \<and>
   time_stats rider_frame =
    ([PopularMonth 3, PopularDay ''Friday'', PopularHour 3],
     Inr (rider_frame\<lparr>columns := add_column ''Start Hour'' (columns rider_frame)\<rparr>))"
proof -
  have ne: "rows rider_frame \<noteq> []"
    by (simp add: rider_frame_def)
  have "least_mode (map month_col (rows rider_frame)) = 3"
    and "least_mode (map day_of_week (rows rider_frame)) = ''Friday''"
    and "least_mode (start_hours rider_frame) = 3"
    by code_simp+
  with time_stats_spec [OF ne] ne show ?thesis
    by simp
qed

theorem time_stats_empty_witness:
  "rows \<lparr>columns = [''Start Time''], rows = []\<rparr> = []
   \<and> time_stats \<lparr>columns = [''Start Time''], rows = []\<rparr> = ([], Inl KeyError)"
  using time_stats_empty [of "\<lparr>columns = [''Start Time''], rows = []\<rparr>"] by simp

theorem station_stats_spec_witness:
  "case read_frame sample_files ''washington'' of
     Inr df \<Rightarrow> station_stats df = ([PopularStartStation ''A'', PopularEndStation ''B'', PopularTrip ''A / B''], Inr ())
   | Inl e \<Rightarrow> False"
proof -
  obtain df where df: "read_frame sample_files ''washington'' = Inr df"
    by (rule sample_frame_loaded)
  have facts: "case read_frame sample_files ''washington'' of
     Inr df \<Rightarrow> ''Start Station'' \<in> set (columns df) \<and> ''End Station'' \<in> set (columns df)
       \<and> dropna (starts df) \<noteq> [] \<and> dropna (ends df) \<noteq> []
       \<and> dropna (map2 station_pair (starts df) (ends df)) \<noteq> []
       \<and> least_mode (dropna (starts df)) = ''A'' \<and> least_mode (dropna (ends df)) = ''B''
       \<and> least_mode (dropna (map2 station_pair (starts df) (ends df))) = ''A / B''
   | Inl e \<Rightarrow> False"
    by code_simp
  with df have h: "''Start Station'' \<in> set (columns df)" "''End Station'' \<in> set (columns df)"
    "dropna (starts df) \<noteq> []" "dropna (ends df) \<noteq> []"
    "dropna (map2 station_pair (starts df) (ends df)) \<noteq> []"
    "least_mode (dropna (starts df)) = ''A''" "least_mode (dropna (ends df)) = ''B''"
    "least_mode (dropna (map2 station_pair (starts df) (ends df))) = ''A / B''"
    by simp_all
  have "station_stats df = ([PopularStartStation ''A'', PopularEndStation ''B'', PopularTrip ''A / B''], Inr ())"
    using station_stats_spec [of df] h by simp
  with df show ?thesis
    by simp
qed

theorem user_stats_spec_witness:
  "''Birth Year'' \<in> set (columns rider_frame) \<and> ''Gender'' \<notin> set (columns rider_frame)
   \<and> user_stats rider_frame =
     ([UserTypeCounts [(''Subscriber'', 3), (''Customer'', 1)], NoGender,
       EarliestBirthYear (Some 1989), RecentBirthYear (Some 1992), CommonBirthYear 1989], Inr ())"
proof -
  have cols: "''Birth Year'' \<in> set (columns rider_frame)" "''Gender'' \<notin> set (columns rider_frame)"
    "''User Type'' \<in> set (columns rider_frame)"
    by (simp_all add: rider_frame_def)
  have ne: "dropna (birth_years rider_frame) \<noteq> []"
    by code_simp
  have v: "value_counts (user_types rider_frame) = [(''Subscriber'', 3), (''Customer'', 1)]"
    "Min (set (dropna (birth_years rider_frame))) = 1989"
    "Max (set (dropna (birth_years rider_frame))) = 1992"
    "least_mode (dropna (birth_years rider_frame)) = 1989"
    by code_simp+
  from user_stats_spec [of rider_frame] ne cols v show ?thesis
    by simp
qed

end
