(* ===== verification/Prompt.thy ===== *)
theory Prompt
  imports Stats
begin

text \<open>
  The interactive part of \<open>src/bikeshare_2.py\<close> that reads the user's answers:
  \<open>get_filters\<close> (lines 10--56), three loops that re-prompt until the lowered answer
  is a key of \<open>CITY_DATA\<close>, an entry of the lowered \<open>calendar.month_name\<close> plus
  \<open>all\<close>, and an entry of the lowered \<open>calendar.day_name\<close> plus \<open>all\<close>; and the
  pagination loop of \<open>main\<close> (lines 219--227), which shows five rows per \<open>yes\<close>.
  The user's answers are a list of input lines consumed from the front; \<open>input()\<close>
  past the last line raises \<open>EOFError\<close>. The printed lines are \<open>event\<close>s: a message,
  a page of rows, or a line of a statistics report.
\<close>

datatype event = Msg string | Rows "row list" | Report report

definition separator :: string where
  "separator = replicate 40 (CHR ''-'')"

text \<open>One \<open>while True\<close> prompt loop: the first answer whose lower-case form is valid.\<close>

fun ask_loop :: "(string \<Rightarrow> bool) \<Rightarrow> string \<Rightarrow> string list \<Rightarrow> (event, string \<times> string list) wres" where
  "ask_loop valid err [] = ([], Inl EOFError)"
| "ask_loop valid err (l # ls) =
     (if valid (py_lower l) then ([], Inr (py_lower l, ls))
      else (case ask_loop valid err ls of (os, r) \<Rightarrow> (Msg err # os, r)))"

definition valid_months :: "string list" where
  "valid_months = map py_lower (month_name @ [''all''])"

definition valid_days :: "string list" where
  "valid_days = map py_lower (day_name @ [''all''])"

definition get_filters :: "string list \<Rightarrow> (event, (string \<times> string \<times> string) \<times> string list) wres" where
  "get_filters inp =
     wbind (emit (Msg ''Hello! Let's explore some US bikeshare data!'')) (\<lambda>_.
     wbind (ask_loop (dict_has CITY_DATA) ''Invalid city entered.'' inp) (\<lambda>(city, inp).
     wbind (ask_loop (\<lambda>m. m \<in> set valid_months) ''Invalid city entered.'' inp) (\<lambda>(month, inp).
     wbind (ask_loop (\<lambda>d. d \<in> set valid_days) ''Invalid day entered.'' inp) (\<lambda>(day, inp).
     wbind (emit (Msg separator)) (\<lambda>_. wret ((city, month, day), inp))))))"

text \<open>Lines 219--227: show \<open>df[i:i+5]\<close> for every \<open>yes\<close>, stop at any other answer.\<close>

text \<open>The rows shown on the pages of an output.\<close>

definition shown :: "event list \<Rightarrow> row list" where
  "shown os = concat (map (\<lambda>e. case e of Rows rs \<Rightarrow> rs | _ \<Rightarrow> []) os)"

fun paginate :: "frame \<Rightarrow> nat \<Rightarrow> string list \<Rightarrow> (event, string list) wres" where
  "paginate df i [] = ([], Inl EOFError)"
| "paginate df i (l # ls) =
     (if py_lower l = ''yes''
      then (case paginate df (i + 5) ls of (os, r) \<Rightarrow> (Rows (take 5 (drop i (rows df))) # Msg separator # os, r))
      else ([], Inr ls))"


section \<open>The prompt loops\<close>

text \<open>C26: a prompt loop prints its error message once for every leading answer that is
  not valid, and returns the first valid answer in lower case with the answers after it;
  it raises \<open>EOFError\<close> when no answer is valid.\<close>

theorem ask_loop_eq:
  "ask_loop valid err inp =
     (replicate (length (takeWhile (\<lambda>l. \<not> valid (py_lower l)) inp)) (Msg err),
      case dropWhile (\<lambda>l. \<not> valid (py_lower l)) inp of
        [] \<Rightarrow> Inl EOFError
      | l # ls \<Rightarrow> Inr (py_lower l, ls))"
  by (induction inp) auto

lemma ask_loop_Inr:
  assumes "snd (ask_loop valid err inp) = Inr (v, rest)"
  shows "valid v \<and> length rest < length inp"
  using assms by (induction inp) (auto split: if_splits prod.splits)

lemma get_filters_Inr:
  assumes "snd (get_filters inp) = Inr ((city, month, day), rest)"
  obtains i1 i2 where
    "snd (ask_loop (dict_has CITY_DATA) ''Invalid city entered.'' inp) = Inr (city, i1)"
    "snd (ask_loop (\<lambda>m. m \<in> set valid_months) ''Invalid city entered.'' i1) = Inr (month, i2)"
    "snd (ask_loop (\<lambda>d. d \<in> set valid_days) ''Invalid day entered.'' i2) = Inr (day, rest)"
  using assms by (auto simp: get_filters_def snd_wbind_Inr wret_def emit_def split: prod.splits)

lemma get_filters_consumes:
  assumes "snd (get_filters inp) = Inr (filters, rest)"
  shows "length rest + 3 \<le> length inp"
proof -
  obtain city month day where "filters = (city, month, day)"
    by (cases filters) auto
  with assms obtain i1 i2 where
    "snd (ask_loop (dict_has CITY_DATA) ''Invalid city entered.'' inp) = Inr (city, i1)"
    "snd (ask_loop (\<lambda>m. m \<in> set valid_months) ''Invalid city entered.'' i1) = Inr (month, i2)"
    "snd (ask_loop (\<lambda>d. d \<in> set valid_days) ''Invalid day entered.'' i2) = Inr (day, rest)"
    by (auto elim: get_filters_Inr)
  then show ?thesis
    by (auto dest!: ask_loop_Inr)
qed

text \<open>C25: \<open>get_filters\<close> returns only a known city, a month of its month list and a day
  of its day list, and consumes at least three answers.\<close>

theorem get_filters_valid:
  assumes "snd (get_filters inp) = Inr ((city, month, day), rest)"
  shows "dict_has CITY_DATA city \<and> month \<in> set valid_months \<and> day \<in> set valid_days
    \<and> length rest + 3 \<le> length inp"
proof -
  from assms obtain i1 i2 where
    a1: "snd (ask_loop (dict_has CITY_DATA) ''Invalid city entered.'' inp) = Inr (city, i1)" and
    a2: "snd (ask_loop (\<lambda>m. m \<in> set valid_months) ''Invalid city entered.'' i1) = Inr (month, i2)" and
    a3: "snd (ask_loop (\<lambda>d. d \<in> set valid_days) ''Invalid day entered.'' i2) = Inr (day, rest)"
    by (rule get_filters_Inr)
  from ask_loop_Inr [OF a1] ask_loop_Inr [OF a2] ask_loop_Inr [OF a3] show ?thesis
    by auto
qed

section \<open>Validation against the loader\<close>

lemma valid_months_eq: "valid_months = '''' # tl (map py_lower month_name) @ [''all'']"
  by code_simp

lemma ask_loop_skip:
  assumes "\<forall>x \<in> set xs. \<not> valid (py_lower x)" and "valid (py_lower c)"
  shows "ask_loop valid err (xs @ c # rest) = (replicate (length xs) (Msg err), Inr (py_lower c, rest))"
  using assms by (induction xs) auto

text \<open>C32: what \<open>get_filters\<close> prints for any answers: the greeting, one
  "Invalid city entered." for every rejected city answer and for every rejected month
  answer (the month loop reuses the city's message), one "Invalid day entered." for
  every rejected day answer, and the separator; it returns the first accepted answers in
  lower case and the answers after them.\<close>

theorem get_filters_messages:
  assumes "\<forall>x \<in> set cs. \<not> dict_has CITY_DATA (py_lower x)" and "dict_has CITY_DATA (py_lower c)"
    and "\<forall>x \<in> set ms. py_lower x \<notin> set valid_months" and "py_lower m \<in> set valid_months"
    and "\<forall>x \<in> set ds. py_lower x \<notin> set valid_days" and "py_lower d \<in> set valid_days"
  shows "get_filters (cs @ c # ms @ m # ds @ d # rest) =
    (Msg ''Hello! Let's explore some US bikeshare data!''
       # replicate (length cs + length ms) (Msg ''Invalid city entered.'')
       @ replicate (length ds) (Msg ''Invalid day entered.'') @ [Msg separator],
     Inr ((py_lower c, py_lower m, py_lower d), rest))"
proof -
  have "ask_loop (dict_has CITY_DATA) ''Invalid city entered.'' (cs @ c # ms @ m # ds @ d # rest)
      = (replicate (length cs) (Msg ''Invalid city entered.''), Inr (py_lower c, ms @ m # ds @ d # rest))"
    using assms(1,2) by (rule ask_loop_skip)
  moreover have "ask_loop (\<lambda>m. m \<in> set valid_months) ''Invalid city entered.'' (ms @ m # ds @ d # rest)
      = (replicate (length ms) (Msg ''Invalid city entered.''), Inr (py_lower m, ds @ d # rest))"
    using assms(3,4) by (intro ask_loop_skip) simp_all
  moreover have "ask_loop (\<lambda>d. d \<in> set valid_days) ''Invalid day entered.'' (ds @ d # rest)
      = (replicate (length ds) (Msg ''Invalid day entered.''), Inr (py_lower d, rest))"
    using assms(5,6) by (intro ask_loop_skip) simp_all
  ultimately show ?thesis
    by (simp add: get_filters_def wret_def replicate_add)
qed

section \<open>Pagination\<close>

lemma shown_simps [simp]:
  "shown [] = []"
  "shown (Rows rs # os) = rs @ shown os"
  "shown (Msg m # os) = shown os"
  "shown (Report r # os) = shown os"
  by (simp_all add: shown_def)

text \<open>C27: the pages shown are the dataset's rows in their order, five per \<open>yes\<close>, from
  the start, without gap or repetition; pagination stops at the first other answer and
  raises \<open>EOFError\<close> if there is none.\<close>

theorem paginate_shown:
  "shown (fst (paginate df i inp)) =
     take (5 * length (takeWhile (\<lambda>l. py_lower l = ''yes'') inp)) (drop i (rows df))
   \<and> snd (paginate df i inp) =
     (case dropWhile (\<lambda>l. py_lower l = ''yes'') inp of [] \<Rightarrow> Inl EOFError | l # ls \<Rightarrow> Inr ls)"
proof (induction inp arbitrary: i)
  case Nil
  then show ?case by simp
next
  case (Cons l ls)
  have "take 5 (drop i (rows df)) @ take (5 * n) (drop (i + 5) (rows df)) = take (5 + 5 * n) (drop i (rows df))"
    for n
    by (simp add: take_add add.commute)
  with Cons.IH [of "i + 5"] show ?case
    by (auto split: prod.split)
qed


theorem get_filters_valid_witness:
  "snd (get_filters [''Chicago'', ''June'', ''Friday'', ''no'']) = Inr ((''chicago'', ''june'', ''friday''), [''no''])
   \<and> dict_has CITY_DATA ''chicago'' \<and> ''june'' \<in> set valid_months \<and> ''friday'' \<in> set valid_days"
proof -
  have g: "snd (get_filters [''Chicago'', ''June'', ''Friday'', ''no'']) = Inr ((''chicago'', ''june'', ''friday''), [''no''])"
    by code_simp
  from get_filters_valid [OF g] g show ?thesis
    by simp
qed


lemma paginate_Inr_length:
  assumes "snd (paginate df i inp) = Inr rest"
  shows "length rest < length inp"
  using assms
  by (induction inp arbitrary: i) (auto split: if_splits prod.splits, metis less_SucI snd_conv)


theorem get_filters_messages_witness:
  "get_filters [''Boston'', ''Chicago'', ''jan'', ''June'', ''All''] =
    ([Msg ''Hello! Let's explore some US bikeshare data!'', Msg ''Invalid city entered.'',
      Msg ''Invalid city entered.'', Msg separator], Inr ((''chicago'', ''june'', ''all''), []))"
proof -
  have h: "\<forall>x \<in> set [''Boston'']. \<not> dict_has CITY_DATA (py_lower x)" "dict_has CITY_DATA (py_lower ''Chicago'')"
    "\<forall>x \<in> set [''jan'']. py_lower x \<notin> set valid_months" "py_lower ''June'' \<in> set valid_months"
    "\<forall>x \<in> set ([] :: string list). py_lower x \<notin> set valid_days" "py_lower ''All'' \<in> set valid_days"
    by code_simp+
  have l: "py_lower ''Chicago'' = ''chicago''" "py_lower ''June'' = ''june''" "py_lower ''All'' = ''all''"
    by code_simp+
  from get_filters_messages [OF h, of "[]"] l show ?thesis
    by simp
qed

end
