(* ===== verification/Shell.thy ===== *)
theory Shell
  imports Prompt
begin

text \<open>
  The driver \<open>main\<close> of \<open>src/bikeshare_2.py\<close> (lines 214--237): one round asks for
  the filters, loads the data, pages through the rows on request, runs the four
  statistics groups in order on the dataset (the one \<open>time_stats\<close> has extended with
  \<open>Start Hour\<close>), and restarts on the answer \<open>yes\<close>. An exception anywhere ends the
  program, so a round's outcome is the program's outcome. Every round consumes at least
  four answers, so the loop is a total function on the finite list of answers: its
  termination is proved by the length of that list.
\<close>

definition run_stats :: "frame \<Rightarrow> (event, unit) wres" where
  "run_stats df =
     wbind (map_out Report (time_stats df)) (\<lambda>df'.
     wbind (map_out Report (station_stats df')) (\<lambda>_.
     wbind (map_out Report (trip_duration_stats df')) (\<lambda>_.
     map_out Report (user_stats df'))))"

text \<open>The number of rounds in an output: each round of \<open>main\<close> starts with the greeting of
  \<open>get_filters\<close>.\<close>

definition greetings :: "event list \<Rightarrow> nat" where
  "greetings os = length (filter (\<lambda>e. e = Msg ''Hello! Let's explore some US bikeshare data!'') os)"

function main_loop :: "files \<Rightarrow> string list \<Rightarrow> (event, unit) wres" where
  "main_loop fs inp =
     wbind (get_filters inp) (\<lambda>(filters, inp1). case filters of (city, month, day) \<Rightarrow>
     wbind (lift (load_data fs city month day)) (\<lambda>df.
     wbind (paginate df 0 inp1) (\<lambda>inp2.
     wbind (run_stats df) (\<lambda>_.
       (case inp2 of
          [] \<Rightarrow> wraise EOFError
        | l # rest \<Rightarrow> if py_lower l \<noteq> ''yes'' then wret () else main_loop fs rest)))))"
  by pat_completeness auto
termination
proof (relation "measure (\<lambda>(fs, inp). length inp)")
  show "wf (measure (\<lambda>(fs, inp). length inp))"
    by simp
next
  fix fs inp os1 a filters inp1 city md month day os2 df os3 inp2 os4 u l rest
  assume g: "get_filters inp = (os1, Inr a)" and a: "(filters, inp1) = a"
    and f: "(city, md) = filters" "(month, day) = md"
    and p: "paginate df 0 inp1 = (os3, Inr inp2)" and i: "inp2 = l # rest"
  from g a have "length inp1 + 3 \<le> length inp"
    using get_filters_consumes [of inp filters inp1] by auto
  moreover from p have "length inp2 < length inp1"
    using paginate_Inr_length [of df 0 inp1 inp2] by simp
  ultimately show "((fs, rest), fs, inp) \<in> measure (\<lambda>(fs, inp). length inp)"
    using i by simp
qed


declare main_loop.simps [simp del]

lemma main_loop_unfold:
  "main_loop fs inp =
     wbind (get_filters inp) (\<lambda>(filters, inp1). case filters of (city, month, day) \<Rightarrow>
     wbind (lift (load_data fs city month day)) (\<lambda>df.
     wbind (paginate df 0 inp1) (\<lambda>inp2.
     wbind (run_stats df) (\<lambda>_.
       (case inp2 of
          [] \<Rightarrow> wraise EOFError
        | l # rest \<Rightarrow> if py_lower l \<noteq> ''yes'' then wret () else main_loop fs rest)))))"
  by (rule main_loop.simps)

lemma greetings_simps [simp]:
  "greetings [] = 0"
  "greetings (os @ os') = greetings os + greetings os'"
  "greetings (Msg ''Hello! Let's explore some US bikeshare data!'' # os) = Suc (greetings os)"
  by (simp_all add: greetings_def)

lemma greetings_zero: "Msg ''Hello! Let's explore some US bikeshare data!'' \<notin> set os \<Longrightarrow> greetings os = 0"
  by (simp add: greetings_def filter_empty_conv) blast

lemma ask_loop_out: "set (fst (ask_loop valid err inp)) \<subseteq> {Msg err}"
  by (induction inp) (auto split: prod.split)

lemma paginate_out: "set (fst (paginate df i inp)) \<subseteq> range Rows \<union> {Msg separator}"
  by (induction df i inp rule: paginate.induct) (auto split: prod.split)

lemma sep_ne_greeting: "separator \<noteq> ''Hello! Let's explore some US bikeshare data!''"
  by code_simp

lemma run_stats_out: "set (fst (run_stats df)) \<subseteq> range Report"
  by (auto simp: run_stats_def map_out_def fst_wbind split: sum.splits)

lemma get_filters_greetings: "greetings (fst (get_filters inp)) = 1"
proof -
  have "greetings (fst (ask_loop valid err inp')) = 0"
    if "err \<noteq> ''Hello! Let's explore some US bikeshare data!''" for valid err inp'
    using ask_loop_out [of valid err inp'] that by (intro greetings_zero) auto
  moreover have "greetings [Msg separator] = 0"
    by (simp add: greetings_def sep_ne_greeting)
  ultimately show ?thesis
    by (simp add: get_filters_def fst_wbind wret_def split: sum.split prod.split)
qed

lemma round_greetings:
  "greetings (fst (paginate df i inp)) = 0" "greetings (fst (run_stats df)) = 0"
proof -
  show "greetings (fst (paginate df i inp)) = 0"
    using paginate_out [of df i inp] by (intro greetings_zero) (auto simp: not_sym [OF sep_ne_greeting])
  show "greetings (fst (run_stats df)) = 0"
    using run_stats_out [of df] by (intro greetings_zero) auto
qed

text \<open>C35: \<open>main\<close> terminates on every finite input with a bound on its rounds: a
  round that restarts consumes at least five answers (three for the filters, one or more
  for the pages, one for the restart), so on \<open>n\<close> answers the program starts at most
  \<open>n div 5 + 1\<close> rounds.\<close>

theorem main_loop_rounds:
  "greetings (fst (main_loop fs inp)) \<le> length inp div 5 + 1"
proof (induction "length inp" arbitrary: inp rule: less_induct)
  case less
  show ?case
  proof (cases "snd (get_filters inp)")
    case (Inl e)
    then show ?thesis
      by (subst main_loop_unfold) (simp add: fst_wbind get_filters_greetings)
  next
    case g: (Inr a)
    obtain city month day inp1 where a: "a = ((city, month, day), inp1)"
      by (cases a) auto
    show ?thesis
    proof (cases "load_data fs city month day")
      case (Inl e)
      then show ?thesis using g a
        by (subst main_loop_unfold) (simp add: fst_wbind get_filters_greetings lift_def)
    next
      case l: (Inr df)
      show ?thesis
      proof (cases "snd (paginate df 0 inp1)")
        case (Inl e)
        then show ?thesis using g a l
          by (subst main_loop_unfold)
            (simp add: fst_wbind get_filters_greetings lift_def round_greetings)
      next
        case p: (Inr inp2)
        show ?thesis
        proof (cases "snd (run_stats df) = Inr () \<and> inp2 \<noteq> [] \<and> py_lower (hd inp2) = ''yes''")
          case False
          then show ?thesis using g a l p
            by (subst main_loop_unfold)
              (auto simp: fst_wbind get_filters_greetings lift_def round_greetings wret_def
                wraise_def split: sum.split list.split)
        next
          case True
          then obtain l rest where i2: "inp2 = l # rest" and y: "py_lower l = ''yes''"
            and r: "snd (run_stats df) = Inr ()"
            by (cases inp2) auto
          have "length rest + 5 \<le> length inp"
            using get_filters_consumes [of inp "(city, month, day)" inp1]
              paginate_Inr_length [of df 0 inp1] g a p i2 by simp
          moreover have "greetings (fst (main_loop fs rest)) \<le> length rest div 5 + 1"
            using calculation by (intro less) simp
          ultimately show ?thesis using g a l p i2 y r
            by (subst main_loop_unfold)
              (simp add: fst_wbind get_filters_greetings lift_def round_greetings)
        qed
      qed
    qed
  qed
qed

text \<open>C28: the rounds of \<open>main\<close> are independent: after a round that ends with the answer
  \<open>yes\<close>, the program prints that round's lines and then behaves as a fresh run on the
  remaining answers, with nothing kept from the round before.\<close>

theorem main_loop_restart:
  assumes "get_filters inp = (os1, Inr ((city, month, day), inp1))"
    and "load_data fs city month day = Inr df"
    and "paginate df 0 inp1 = (os2, Inr (l # rest))"
    and "run_stats df = (os3, Inr ())"
    and "py_lower l = ''yes''"
  shows "main_loop fs inp = (os1 @ os2 @ os3 @ fst (main_loop fs rest), snd (main_loop fs rest))"
  using assms by (subst main_loop_unfold) (simp add: lift_def)

text \<open>C29: a round that ends with any answer but \<open>yes\<close> ends the program normally after
  printing that round's lines.\<close>

theorem main_loop_stop:
  assumes "get_filters inp = (os1, Inr ((city, month, day), inp1))"
    and "load_data fs city month day = Inr df"
    and "paginate df 0 inp1 = (os2, Inr (l # rest))"
    and "run_stats df = (os3, Inr ())"
    and "py_lower l \<noteq> ''yes''"
  shows "main_loop fs inp = (os1 @ os2 @ os3, Inr ())"
  using assms by (subst main_loop_unfold) (simp add: lift_def wret_def)

text \<open>C30: an error of \<open>load_data\<close> (unknown city, missing file or column, unparsable
  start time, invalid month) ends the whole program with that error, after the prompts'
  lines.\<close>

theorem main_loop_load_error:
  assumes "get_filters inp = (os1, Inr ((city, month, day), inp1))"
    and "load_data fs city month day = Inl e"
  shows "main_loop fs inp = (os1, Inl e)"
  using assms by (subst main_loop_unfold) (simp add: lift_def)


text \<open>C36: valid answers lead to the program's normal end: answers whose lower case is a
  known city, a month and a day of the prompts' lists pass \<open>get_filters\<close> without a
  re-prompt; if that data loads and the statistics succeed, declining the pages and the
  restart ends the program normally.\<close>

theorem main_loop_completes:
  assumes "dict_has CITY_DATA (py_lower c)" and "py_lower m \<in> set valid_months"
    and "py_lower d \<in> set valid_days"
    and "load_data fs (py_lower c) (py_lower m) (py_lower d) = Inr df"
    and "snd (run_stats df) = Inr ()" and "py_lower a \<noteq> ''yes''" and "py_lower b \<noteq> ''yes''"
  shows "snd (main_loop fs (c # m # d # a # b # rest)) = Inr ()"
proof -
  have "snd (get_filters (c # m # d # a # b # rest)) = Inr ((py_lower c, py_lower m, py_lower d), a # b # rest)"
    using assms(1-3) by (simp add: get_filters_def wret_def)
  then show ?thesis
    using assms(4-7) by (subst main_loop_unfold) (simp add: snd_wbind_Inr fst_wbind lift_def wret_def
      split: sum.split prod.split)
qed


lemma sample_round:
  obtains df os3 where "load_data sample_files ''washington'' ''all'' ''all'' = Inr df"
    and "run_stats df = (os3, Inr ())"
proof -
  have "\<not> isl (load_data sample_files ''washington'' ''all'' ''all'')"
    by code_simp
  then obtain df where l: "load_data sample_files ''washington'' ''all'' ''all'' = Inr df"
    by (cases "load_data sample_files ''washington'' ''all'' ''all''") auto
  have "case load_data sample_files ''washington'' ''all'' ''all'' of
          Inr df \<Rightarrow> snd (run_stats df) = Inr () | Inl e \<Rightarrow> False"
    by code_simp
  with l have "snd (run_stats df) = Inr ()"
    by simp
  then obtain os3 where "run_stats df = (os3, Inr ())"
    by (cases "run_stats df") auto
  with l show ?thesis
    by (rule that)
qed

theorem main_loop_restart_witness:
  "snd (main_loop sample_files [''washington'', ''all'', ''all'', ''no'', ''yes'', ''Boston'']) =
   snd (main_loop sample_files [''Boston''])"
proof -
  obtain df os3 where l: "load_data sample_files ''washington'' ''all'' ''all'' = Inr df"
    and r: "run_stats df = (os3, Inr ())"
    by (rule sample_round)
  have g: "get_filters [''washington'', ''all'', ''all'', ''no'', ''yes'', ''Boston''] =
     ([Msg ''Hello! Let's explore some US bikeshare data!'', Msg separator],
      Inr ((''washington'', ''all'', ''all''), [''no'', ''yes'', ''Boston'']))"
    by code_simp
  have "py_lower ''no'' \<noteq> ''yes''" and y: "py_lower ''yes'' = ''yes''"
    by code_simp+
  then have p: "paginate df 0 [''no'', ''yes'', ''Boston''] = ([], Inr [''yes'', ''Boston''])"
    by simp
  from main_loop_restart [OF g l p r y] show ?thesis
    by simp
qed

theorem main_loop_stop_witness:
  "snd (main_loop sample_files [''washington'', ''all'', ''all'', ''no'', ''no'']) = Inr ()"
proof -
  obtain df os3 where l: "load_data sample_files ''washington'' ''all'' ''all'' = Inr df"
    and r: "run_stats df = (os3, Inr ())"
    by (rule sample_round)
  have g: "get_filters [''washington'', ''all'', ''all'', ''no'', ''no''] =
     ([Msg ''Hello! Let's explore some US bikeshare data!'', Msg separator],
      Inr ((''washington'', ''all'', ''all''), [''no'', ''no'']))"
    by code_simp
  have n: "py_lower ''no'' \<noteq> ''yes''"
    by code_simp
  then have p: "paginate df 0 [''no'', ''no''] = ([], Inr [''no''])"
    by simp
  from main_loop_stop [OF g l p r n] show ?thesis
    by simp
qed

theorem main_loop_load_error_witness:
  "main_loop sample_files [''chicago'', ''all'', ''all''] =
    ([Msg ''Hello! Let's explore some US bikeshare data!'', Msg separator], Inl FileNotFoundError)"
proof -
  have g: "get_filters [''chicago'', ''all'', ''all''] =
     ([Msg ''Hello! Let's explore some US bikeshare data!'', Msg separator],
      Inr ((''chicago'', ''all'', ''all''), []))"
    by code_simp
  have l: "load_data sample_files ''chicago'' ''all'' ''all'' = Inl FileNotFoundError"
    by code_simp
  from main_loop_load_error [OF g l] show ?thesis .
qed

theorem main_loop_completes_witness:
  "snd (main_loop sample_files [''Washington'', ''ALL'', ''All'', ''No'', ''nO'']) = Inr ()"
proof -
  obtain df os3 where l: "load_data sample_files ''washington'' ''all'' ''all'' = Inr df"
    and r: "run_stats df = (os3, Inr ())"
    by (rule sample_round)
  have h: "dict_has CITY_DATA (py_lower ''Washington'')" "py_lower ''ALL'' \<in> set valid_months"
    "py_lower ''All'' \<in> set valid_days" "py_lower ''No'' \<noteq> ''yes''" "py_lower ''nO'' \<noteq> ''yes''"
    by code_simp+
  have e: "py_lower ''Washington'' = ''washington''" "py_lower ''ALL'' = ''all''" "py_lower ''All'' = ''all''"
    by code_simp+
  from main_loop_completes [OF h(1-3), of sample_files df "''No''" "''nO''" "[]"] l r h(4,5) e
  show ?thesis
    by simp
qed

end
