(* ===== verification/Spec2Isabelle.thy ===== *)
theory Spec2Isabelle
  imports Shell
begin

text \<open>
  A verification development for the bikeshare explorer \<open>src/bikeshare_2.py\<close>, one
  Python script on pandas. The script asks for a city, a month and a weekday
  (\<open>get_filters\<close>). It loads the city's CSV file and keeps the trips of that month and
  weekday (\<open>load_data\<close>), pages through the rows on request, and prints four groups of
  statistics (\<open>time_stats\<close>, \<open>station_stats\<close>, \<open>trip_duration_stats\<close>,
  \<open>user_stats\<close>), the durations through \<open>format_time\<close>. It restarts on request
  (\<open>main\<close>). The parts are called in that order and share no state but the dataset
  that \<open>main\<close> passes from one to the next.

  \<^bold>\<open>Theories.\<close>
  \<^item> \<open>Prelude\<close>: Python's exceptions as values (\<open>py_error\<close>, \<open>'a result\<close>); output
    followed by a possible raise (\<open>('o, 'a) wres\<close> with \<open>wbind\<close>, \<open>emit\<close>); the
    builtins \<open>str.lower\<close> and \<open>str.title\<close> (ASCII), \<open>list.index\<close>, dictionary
    lookup, \<open>round\<close> (half to even) and \<open>divmod\<close> (floor). Python floats are exact
    rationals, Python integers are \<open>int\<close>.
  \<^item> \<open>TimeFormat\<close>: \<open>format_time\<close> (lines 167--179) over \<open>rat\<close>.
  \<^item> \<open>Aggregates\<close>: the pandas Series aggregates the statistics call, on columns of
    optional cells (NaN is \<open>None\<close> and is skipped): a one-pass count in first-seen
    order (\<open>tally\<close>), \<open>mode()\<close>, \<open>mode()[0]\<close> (\<open>KeyError\<close> when empty),
    \<open>value_counts()\<close>, \<open>sum\<close>, \<open>mean\<close>, \<open>min\<close> and \<open>max\<close>.
  \<^item> \<open>Calendar\<close>: \<open>calendar.month_name\<close> (with its empty entry 0),
    \<open>calendar.day_name\<close>, timestamps, \<open>pd.to_datetime\<close> for the data files' format
    \<open>YYYY-MM-DD HH:MM:SS\<close>, and \<open>dt.day_name()\<close> from the day number counted from
    1970-01-01. \<open>to_datetime\<close> parses the format (\<open>parse_timestamp\<close>) and then
    checks pandas 2's nanosecond Timestamp range (\<open>ts_in_bounds\<close>): the nanoseconds
    since the epoch must fit in a signed 64-bit integer other than the one reserved for
    \<open>NaT\<close>. Both failures are \<open>ValueError\<close>s the script does not catch; the model gives
    them the same error value.
  \<^item> \<open>Frame\<close>: the data model and the loader. A CSV file is a \<open>table\<close> of a header
    and rows of optional cells. The loaded DataFrame is a \<open>frame\<close> of columns and
    \<open>row\<close>s carrying the derived \<open>month\<close> and \<open>day_of_week\<close>. The theory holds
    \<open>CITY_DATA\<close>, and \<open>load_data\<close> split into \<open>read_frame\<close> (lines 69--77) and
    \<open>apply_filters\<close> (lines 80--95). The files are a map from names to tables, and an
    absent name is a missing file.
  \<^item> \<open>Stats\<close>: the four statistics groups. Each returns the \<open>report\<close> lines it
    prints and its outcome. \<open>time_stats\<close> also returns the dataset with the
    \<open>Start Hour\<close> column it adds, which the later groups receive, as in the script.
  \<^item> \<open>Prompt\<close>: the three prompt loops of \<open>get_filters\<close> and the pagination loop of
    \<open>main\<close>, over the list of the user's answers (\<open>EOFError\<close> past its end).
  \<^item> \<open>Shell\<close>: \<open>main\<close> as \<open>main_loop\<close>, a \<open>function\<close> whose termination is
    proved by the length of the answer list, since every round consumes at least four
    answers. No fuel is needed anywhere: each loop of the script reads an answer per
    iteration or runs over a finite list.
  \<^item> This theory: the properties that span components.

  \<^bold>\<open>What is proved.\<close>
  \<^item> \<open>Frame\<close>: the filter keeps exactly the matching records, in order. It is the
    identity on \<open>all\<close>/\<open>all\<close> and is idempotent, and its month and day parts compose
    and commute. Loading fails fast on a malformed start time.
  \<^item> \<open>Frame\<close>: loading yields well-formed datasets. The invariant is that timestamps
    are valid, the derived columns agree with the start time, and absent cells are empty.
    Loading also has a closed-form result.
  \<^item> \<open>Aggregates\<close>: \<open>mode()[0]\<close> refines "the smallest of the most frequent values".
    \<open>value_counts\<close> refines exact per-category counts, by decreasing count with ties in
    first-seen order.
  \<^item> \<open>TimeFormat\<close>: on integers, \<open>format_time\<close> is exact integer division with its
    parts in range. On fractions it is exact to within half a second.
  \<^item> \<open>Stats\<close>: each statistics group reports the present columns and "no data" for
    the absent ones, independently. A group fails exactly when a present column is empty.
  \<^item> \<open>Prompt\<close>: the prompts return validated answers, and the pages show the rows in
    order without gaps.
  \<^item> \<open>Calendar\<close>: \<open>to_datetime\<close> is a bijection between the strings it accepts and
    the valid timestamps in pandas' range. Converting a printed timestamp gives it back,
    and printing a converted one gives back the string. The weekday
    of \<open>dt.day_name()\<close> follows the calendar: 1970-01-01 is a Thursday, and each valid
    date's successor has the next weekday. That successor is proved against the
    day-number formula across month ends, leap Februaries and 400-year eras.
  \<^item> \<open>Shell\<close>: the rounds of \<open>main\<close> are independent, and any error ends the
    program. On \<open>n\<close> answers \<open>main\<close> starts at most \<open>n div 5 + 1\<close> rounds, which is
    its termination argument made quantitative. Valid answers followed by two refusals
    end the program normally whenever the data loads and the statistics succeed.

  \<^bold>\<open>What the model shows about the code.\<close>
  \<^item> An empty month answer passes \<open>get_filters\<close> and crashes \<open>load_data\<close> with
    \<open>ValueError\<close>.
  \<^item> A filter that matches no trip crashes \<open>time_stats\<close> with \<open>KeyError\<close>, where the
    spec asks for "no data". An empty duration or birth-year column that is present
    crashes its group in the same way.
  \<^item> \<open>format_time\<close> prints 60 seconds, with no carry, exactly for totals whose
    remainder modulo 60 is at least 59.5.
  \<^item> The trip label \<open>start / end\<close> merges distinct trips when a station name contains
    \<open>/\<close>. \<open>station_pair_inj\<close> proves the label decodable only under the condition
    that the start name has no \<open>/\<close>.
  \<^item> An invalid month is reported as an invalid city, once per rejected month answer.
  \<^item> A start time outside pandas' Timestamp range (about 1677-09-21 to 2262-04-11)
    ends the program in \<open>load_data\<close>.

  \<^bold>\<open>Not modelled.\<close>
  \<^item> Wall-clock timing and its "This took" lines; the headings, the separators between
    groups and the prompts' texts. These are display only.
  \<^item> CSV parsing itself: a file is given as its parsed table. A start time is a string,
    so an empty Start Time cell (which pandas reads as NaN and converts to \<open>NaT\<close>
    without error) is not represented; the spec makes the field required.
  \<^item> Sums are exact: numpy's int64 sum of the durations would wrap past \<open>2^63\<close>
    seconds, which trip data cannot reach.
  \<^item> \<open>pd.to_datetime\<close> formats other than the one the data files use.
  \<^item> Ties in \<open>value_counts\<close> are ordered as the spec says (first seen), which pandas
    does not guarantee for every sort kind.
\<close>


section \<open>Properties across components\<close>

lemma get_filters_empty_month:
  assumes "dict_has CITY_DATA (py_lower c)" and "py_lower d \<in> set valid_days"
  shows "get_filters (c # '''' # d # rest) =
    ([Msg ''Hello! Let's explore some US bikeshare data!'', Msg separator],
     Inr ((py_lower c, '''', py_lower d), rest))"
proof -
  have m: "'''' \<in> set valid_months"
    by (simp add: valid_months_eq)
  have "py_lower '''' = ''''"
    by (simp add: py_lower_def)
  with assms m show ?thesis
    by (simp add: get_filters_def wret_def)
qed

text \<open>C18: the empty answer to the month prompt passes \<open>get_filters\<close> (entry 0 of
  \<open>calendar.month_name\<close> is the empty string) and then crashes \<open>load_data\<close>, which
  drops that entry before \<open>list.index\<close>: for any known city whose data loads, the
  program ends with \<open>ValueError\<close> right after the prompts.\<close>

theorem main_empty_month_crash:
  assumes "dict_has CITY_DATA (py_lower c)" and "py_lower d \<in> set valid_days"
    and "read_frame fs (py_lower c) = Inr df"
  shows "main_loop fs (c # '''' # d # rest) =
    ([Msg ''Hello! Let's explore some US bikeshare data!'', Msg separator], Inl ValueError)"
proof -
  have "\<not> valid_month ''''"
    by (simp add: valid_month_def month_names_lower)
  then have "load_data fs (py_lower c) '''' (py_lower d) = Inl ValueError"
    using assms(3) apply_filters_Inl_iff [of df "''''" "py_lower d" ValueError]
    by (simp add: load_data_def)
  with get_filters_empty_month [OF assms(1,2)] show ?thesis
    by (subst main_loop_unfold) (simp add: lift_def)
qed

theorem main_empty_month_crash_witness:
  "main_loop sample_files [''Washington'', '''', ''all''] =
    ([Msg ''Hello! Let's explore some US bikeshare data!'', Msg separator], Inl ValueError)"
proof -
  have h1: "dict_has CITY_DATA (py_lower ''Washington'')"
    and h2: "py_lower ''all'' \<in> set valid_days"
    by code_simp+
  obtain df where h3: "read_frame sample_files ''washington'' = Inr df"
    by (rule sample_frame_loaded)
  have "py_lower ''Washington'' = ''washington''"
    by code_simp
  with h3 have h3': "read_frame sample_files (py_lower ''Washington'') = Inr df"
    by simp
  from main_empty_month_crash [OF h1 h2 h3', of "[]"] show ?thesis .
qed

text \<open>C17: a filter that matches no record ends the whole program with \<open>KeyError\<close>
  from the first statistic, after the prompts and the pages; the spec requires every
  statistic group to degrade to a "no data" report instead.\<close>

theorem main_empty_filter_crash:
  assumes "get_filters inp = (os1, Inr ((city, month, day), inp1))"
    and "load_data fs city month day = Inr df" and "rows df = []"
    and "paginate df 0 inp1 = (os2, Inr inp2)"
  shows "main_loop fs inp = (os1 @ os2, Inl KeyError)"
proof -
  have "run_stats df = ([], Inl KeyError)"
    using assms(3) by (simp add: run_stats_def map_out_def time_stats_def lift_def)
  with assms(1,2,4) show ?thesis
    by (subst main_loop_unfold) (simp add: lift_def)
qed

theorem main_empty_filter_crash_witness:
  "main_loop sample_files [''washington'', ''june'', ''monday'', ''no''] =
    ([Msg ''Hello! Let's explore some US bikeshare data!'', Msg separator], Inl KeyError)"
proof -
  have g: "get_filters [''washington'', ''june'', ''monday'', ''no''] =
      ([Msg ''Hello! Let's explore some US bikeshare data!'', Msg separator],
       Inr ((''washington'', ''june'', ''monday''), [''no'']))"
    by code_simp
  have "\<not> isl (load_data sample_files ''washington'' ''june'' ''monday'')"
    by code_simp
  then obtain df where l: "load_data sample_files ''washington'' ''june'' ''monday'' = Inr df"
    by (cases "load_data sample_files ''washington'' ''june'' ''monday''") auto
  have "case load_data sample_files ''washington'' ''june'' ''monday'' of
          Inr df \<Rightarrow> rows df = [] | Inl e \<Rightarrow> False"
    by code_simp
  with l have e: "rows df = []"
    by simp
  have "py_lower ''no'' \<noteq> ''yes''"
    by code_simp
  then have p: "paginate df 0 [''no''] = ([], Inr [])"
    by simp
  from main_empty_filter_crash [OF g l e p] show ?thesis
    by simp
qed

text \<open>C24: for integer trip durations (the Chicago and New York files) the total travel
  time printed by \<open>trip_duration_stats\<close> is an exact breakdown of the sum of the
  durations, with hours, minutes and seconds in range.\<close>

theorem total_travel_time_exact:
  assumes "''Trip Duration'' \<in> set (columns df)" and "dropna (durations df) = map of_int ns"
    and "ns \<noteq> []"
  shows "\<exists>d h m s. hd (fst (trip_duration_stats df)) = TotalTravelTime (d, h, m, s)
    \<and> d * 86400 + h * 3600 + m * 60 + s = sum_list ns
    \<and> 0 \<le> h \<and> h < 24 \<and> 0 \<le> m \<and> m < 60 \<and> 0 \<le> s \<and> s < 60"
proof -
  obtain d h m s where f: "format_time (of_int (sum_list ns)) = (d, h, m, s)"
    by (cases "format_time (of_int (sum_list ns))") auto
  have "sum_list (dropna (durations df)) = of_int (sum_list ns)"
    using assms(2) by (simp add: sum_list_of_int)
  then have "hd (fst (trip_duration_stats df)) = TotalTravelTime (d, h, m, s)"
    using assms f by (simp add: trip_duration_stats_eq)
  moreover have "d = sum_list ns div 86400" "h = sum_list ns mod 86400 div 3600"
    "m = sum_list ns mod 3600 div 60" "s = sum_list ns mod 60"
    using f by (simp_all add: format_time_of_int_eq)
  ultimately show ?thesis
    using time_breakdown [of _ "sum_list ns"] by blast
qed


theorem total_travel_time_exact_witness:
  "hd (fst (trip_duration_stats
      \<lparr>columns = [''Start Time'', ''Trip Duration''],
       rows = map (\<lambda>d. derive_row (\<lparr>ts_year = 2017, ts_month = 1, ts_day = 1, ts_hour = 0,
                 ts_minute = 0, ts_second = 0\<rparr>, sample_cells ''A'' ''B'' d ''Customer''))
              [90000, 61]\<rparr>)) = TotalTravelTime (1, 1, 1, 1)
   \<and> (1::int) * 86400 + 1 * 3600 + 1 * 60 + 1 = sum_list [90000, 61::int]"
proof -
  define df where "df = \<lparr>columns = [''Start Time'', ''Trip Duration''],
       rows = map (\<lambda>d. derive_row (\<lparr>ts_year = 2017, ts_month = 1, ts_day = 1, ts_hour = 0,
                 ts_minute = 0, ts_second = 0\<rparr>, sample_cells ''A'' ''B'' d ''Customer''))
              [90000, 61]\<rparr>"
  have h1: "''Trip Duration'' \<in> set (columns df)"
    by (simp add: df_def)
  have h2: "dropna (durations df) = map of_int [90000, 61::int]"
    unfolding df_def by code_simp
  have h3: "[90000, 61::int] \<noteq> []"
    by simp
  obtain d h m s where t: "hd (fst (trip_duration_stats df)) = TotalTravelTime (d, h, m, s)"
    and e: "d * 86400 + h * 3600 + m * 60 + s = sum_list [90000, 61::int]"
    using total_travel_time_exact [OF h1 h2 h3] by blast
  have "hd (fst (trip_duration_stats df)) = TotalTravelTime (1, 1, 1, 1)"
    unfolding df_def by code_simp
  with t e show ?thesis
    by (simp add: df_def)
qed

end
